theory Spec2Isabelle
  imports Main "HOL-Library.Word" "HOL-Library.Multiset"
begin

unbundle bit_operations_syntax

section \<open>Common types and constants (mimic.h)\<close>

type_synonym u8 = "8 word"
type_synonym u16 = "16 word"
type_synonym u32 = "32 word"
type_synonym u64 = "64 word"

text \<open>Error codes of mimic.h; the C functions return them as \<open>int\<close>.\<close>

abbreviation (input) MIMIC_OK :: int where "MIMIC_OK \<equiv> 0"
abbreviation (input) MIMIC_ERR_NOMEM :: int where "MIMIC_ERR_NOMEM \<equiv> - 1"
abbreviation (input) MIMIC_ERR_INVAL :: int where "MIMIC_ERR_INVAL \<equiv> - 2"
abbreviation (input) MIMIC_ERR_NOENT :: int where "MIMIC_ERR_NOENT \<equiv> - 3"
abbreviation (input) MIMIC_ERR_IO :: int where "MIMIC_ERR_IO \<equiv> - 4"
abbreviation (input) MIMIC_ERR_BUSY :: int where "MIMIC_ERR_BUSY \<equiv> - 5"
abbreviation (input) MIMIC_ERR_PERM :: int where "MIMIC_ERR_PERM \<equiv> - 6"
abbreviation (input) MIMIC_ERR_NOSYS :: int where "MIMIC_ERR_NOSYS \<equiv> - 7"
abbreviation (input) MIMIC_ERR_CORRUPT :: int where "MIMIC_ERR_CORRUPT \<equiv> - 8"
abbreviation (input) MIMIC_ERR_TOOLARGE :: int where "MIMIC_ERR_TOOLARGE \<equiv> - 9"
abbreviation (input) MIMIC_ERR_NOEXEC :: int where "MIMIC_ERR_NOEXEC \<equiv> - 10"

abbreviation (input) MIMI_MAGIC :: u32 where "MIMI_MAGIC \<equiv> 0x494D494D"
abbreviation (input) MIMI_VERSION :: u8 where "MIMI_VERSION \<equiv> 1"

abbreviation (input) MIMI_ARCH_CORTEX_M0P :: u8 where "MIMI_ARCH_CORTEX_M0P \<equiv> 0"
abbreviation (input) MIMI_ARCH_CORTEX_M33 :: u8 where "MIMI_ARCH_CORTEX_M33 \<equiv> 1"
abbreviation (input) MIMI_ARCH_RISCV :: u8 where "MIMI_ARCH_RISCV \<equiv> 2"

abbreviation (input) MIMI_SECT_NULL :: nat where "MIMI_SECT_NULL \<equiv> 0"
abbreviation (input) MIMI_SECT_TEXT :: nat where "MIMI_SECT_TEXT \<equiv> 1"
abbreviation (input) MIMI_SECT_RODATA :: nat where "MIMI_SECT_RODATA \<equiv> 2"
abbreviation (input) MIMI_SECT_DATA :: nat where "MIMI_SECT_DATA \<equiv> 3"
abbreviation (input) MIMI_SECT_BSS :: nat where "MIMI_SECT_BSS \<equiv> 4"

section \<open>The .mimi header and its validation (mimic_kernel.c)\<close>

text \<open>\<open>MimiHeader\<close>, 64 bytes packed. The padding and reserved words carry no behaviour
  and are left out; \<open>hname\<close> is the C field \<open>name\<close>.\<close>

record MimiHeader =
  magic :: u32
  version :: u8
  flags :: u8
  arch :: u8
  entry_offset :: u32
  text_size :: u32
  rodata_size :: u32
  data_size :: u32
  bss_size :: u32
  reloc_count :: u32
  symbol_count :: u32
  stack_request :: u32
  heap_request :: u32
  hname :: "u8 list"

text \<open>The \<open>#if MIMIC_TARGET_RP2350\<close> of the source is the Boolean parameter
  \<open>rp2350\<close>; mimic.h defaults it to 0 (RP2040).\<close>

definition mimic_validate_header :: "bool \<Rightarrow> MimiHeader \<Rightarrow> int" where
  "mimic_validate_header rp2350 hdr =
     (if magic hdr \<noteq> MIMI_MAGIC then MIMIC_ERR_CORRUPT
      else if version hdr \<noteq> MIMI_VERSION then MIMIC_ERR_INVAL
      else if (if rp2350
               then arch hdr \<noteq> MIMI_ARCH_CORTEX_M33 \<and> arch hdr \<noteq> MIMI_ARCH_RISCV
               else arch hdr \<noteq> MIMI_ARCH_CORTEX_M0P) then MIMIC_ERR_NOEXEC
      else if text_size hdr = 0 then MIMIC_ERR_INVAL
      else if entry_offset hdr \<ge> text_size hdr then MIMIC_ERR_INVAL
      else MIMIC_OK)"

text \<open>What "arch matches the compile-time target" means for each target.\<close>

definition arch_matches :: "bool \<Rightarrow> u8 \<Rightarrow> bool" where
  "arch_matches rp2350 a =
     (if rp2350 then a = MIMI_ARCH_CORTEX_M33 \<or> a = MIMI_ARCH_RISCV
      else a = MIMI_ARCH_CORTEX_M0P)"

section \<open>Platform configuration (mimic.h)\<close>

text \<open>The compile-time target and the link-time addresses of the two static heaps
  (\<open>kernel_heap\<close>, \<open>user_heap\<close>, both 32-byte aligned arrays). Pointers and
  \<open>size_t\<close> are 32 bits wide on both targets.\<close>

record platform =
  rp2350 :: bool
  kernel_heap :: u32
  user_heap :: u32

definition MIMIC_KERNEL_HEAP :: "platform \<Rightarrow> u32" where
  "MIMIC_KERNEL_HEAP cfg = (if rp2350 cfg then 80 * 1024 else 50 * 1024)"

definition MIMIC_USER_HEAP :: "platform \<Rightarrow> u32" where
  "MIMIC_USER_HEAP cfg = (if rp2350 cfg then 380 * 1024 else 180 * 1024)"

definition MIMIC_MAX_TASKS :: "platform \<Rightarrow> nat" where
  "MIMIC_MAX_TASKS cfg = (if rp2350 cfg then 16 else 8)"

definition MIMIC_MAX_MEM_BLOCKS :: "platform \<Rightarrow> nat" where
  "MIMIC_MAX_MEM_BLOCKS cfg = (if rp2350 cfg then 128 else 64)"

abbreviation (input) MIMIC_MEM_ALIGN :: u32 where "MIMIC_MEM_ALIGN \<equiv> 32"
abbreviation (input) MIMIC_MIN_BLOCK_SPLIT :: u32 where "MIMIC_MIN_BLOCK_SPLIT \<equiv> 64"

section \<open>Kernel state (mimic.h, mimic_kernel.c)\<close>

text \<open>\<open>MimicMemBlock\<close>; \<open>bsize\<close> is the C field \<open>size\<close>. A null pointer is the
  address 0.\<close>

record MimicMemBlock =
  addr :: u32
  bsize :: u32
  task_id :: u32
  free :: bool
  pinned :: bool

datatype MimicTaskState =
  TASK_STATE_FREE | TASK_STATE_READY | TASK_STATE_RUNNING
  | TASK_STATE_BLOCKED | TASK_STATE_SLEEPING | TASK_STATE_ZOMBIE

text \<open>\<open>MimicTaskMem\<close>; the fields carry the prefix \<open>m_\<close> to keep them apart from the
  header's.\<close>

record MimicTaskMem =
  m_base :: u32
  m_total_size :: u32
  m_text_start :: u32
  m_text_size :: u32
  m_rodata_start :: u32
  m_rodata_size :: u32
  m_data_start :: u32
  m_data_size :: u32
  m_bss_start :: u32
  m_bss_size :: u32
  m_heap_start :: u32
  m_heap_size :: u32
  m_heap_used :: u32
  m_stack_top :: u32
  m_stack_size :: u32

text \<open>\<open>MimicTCB\<close>; \<open>tid\<close> and \<open>tname\<close> are the C fields \<open>id\<close> and \<open>name\<close>.\<close>

record MimicTCB =
  tid :: u32
  tname :: "u8 list"
  state :: MimicTaskState
  priority :: u8
  running_core :: u8
  entry :: u32
  mem :: MimicTaskMem
  wake_time :: u32
  time_slice :: u32
  total_time_us :: u32
  start_time :: u32
  alloc_count :: u32
  free_count :: u32
  syscall_count :: u32
  sp :: u32
  regs :: "u32 list"

text \<open>\<open>MimicKernel\<close>. The two block tables are fixed arrays with a count in C; the
  model keeps the live prefix \<open>blocks[0 .. count-1]\<close> as a list, so the count is the
  list's length. Entries past the count are never read before they are written. The
  mutexes and the critical section are left out: the model is sequential.\<close>

record MimicKernel =
  mem_blocks :: "MimicMemBlock list"
  user_blocks :: "MimicMemBlock list"
  tasks :: "MimicTCB list"
  task_count :: u8
  current_task :: u8
  tick_count :: u64
  last_schedule_us :: u64
  running :: bool
  preempt_pending :: bool
  boot_time_us :: u64
  total_allocs :: u32
  total_frees :: u32
  failed_allocs :: u32
  programs_loaded :: u32
  syscalls_handled :: u32
  context_switches :: u32
  kernel_free :: u32
  user_free :: u32
  fs_mounted :: bool

section \<open>Arena allocator (mimic_kernel.c)\<close>

text \<open>The pool functions take pointers to one pool's table and free-byte counter and
  also bump the kernel-wide statistics; \<open>pool\<close> is that view of the kernel state.\<close>

record pool =
  blocks :: "MimicMemBlock list"
  free_bytes :: u32
  p_total_allocs :: u32
  p_total_frees :: u32
  p_failed_allocs :: u32

definition kernel_pool :: "MimicKernel \<Rightarrow> pool" where
  "kernel_pool k = \<lparr> blocks = mem_blocks k, free_bytes = kernel_free k,
     p_total_allocs = total_allocs k, p_total_frees = total_frees k,
     p_failed_allocs = failed_allocs k \<rparr>"

definition user_pool :: "MimicKernel \<Rightarrow> pool" where
  "user_pool k = \<lparr> blocks = user_blocks k, free_bytes = user_free k,
     p_total_allocs = total_allocs k, p_total_frees = total_frees k,
     p_failed_allocs = failed_allocs k \<rparr>"

definition set_kernel_pool :: "pool \<Rightarrow> MimicKernel \<Rightarrow> MimicKernel" where
  "set_kernel_pool p k = k \<lparr> mem_blocks := blocks p, kernel_free := free_bytes p,
     total_allocs := p_total_allocs p, total_frees := p_total_frees p,
     failed_allocs := p_failed_allocs p \<rparr>"

definition set_user_pool :: "pool \<Rightarrow> MimicKernel \<Rightarrow> MimicKernel" where
  "set_user_pool p k = k \<lparr> user_blocks := blocks p, user_free := free_bytes p,
     total_allocs := p_total_allocs p, total_frees := p_total_frees p,
     failed_allocs := p_failed_allocs p \<rparr>"

text \<open>\<open>size = (size + MIMIC_MEM_ALIGN - 1) & ~(MIMIC_MEM_ALIGN - 1)\<close> on a 32-bit
  \<open>size_t\<close>: the addition wraps.\<close>

definition align_size :: "u32 \<Rightarrow> u32" where
  "align_size sz = (sz + MIMIC_MEM_ALIGN - 1) AND NOT (MIMIC_MEM_ALIGN - 1)"

text \<open>The best-fit search loop. \<open>i\<close> is the index of the head of the remaining list;
  \<open>best_idx = None\<close> stands for the sentinel \<open>0xFFFFFFFF\<close> (no table has that many
  entries); \<open>best_size\<close> starts at \<open>0xFFFFFFFF\<close>. An exact match leaves the loop.\<close>

fun best_fit :: "MimicMemBlock list \<Rightarrow> u32 \<Rightarrow> nat \<Rightarrow> nat option \<Rightarrow> u32 \<Rightarrow> nat option" where
  "best_fit [] sz i best_idx best_size = best_idx"
| "best_fit (b # bs) sz i best_idx best_size =
     (if free b \<and> sz \<le> bsize b then
        (if bsize b < best_size then
           (if bsize b = sz then Some i
            else best_fit bs sz (Suc i) (Some i) (bsize b))
         else best_fit bs sz (Suc i) best_idx best_size)
      else best_fit bs sz (Suc i) best_idx best_size)"

definition mem_alloc_from_pool :: "pool \<Rightarrow> u32 \<Rightarrow> u32 \<Rightarrow> nat \<Rightarrow> u32 \<times> pool" where
  "mem_alloc_from_pool p size0 tsk max_blocks =
     (if size0 = 0 then (0, p)
      else
        let sz = align_size size0 in
        case best_fit (blocks p) sz 0 None 0xFFFFFFFF of
          None \<Rightarrow> (0, p \<lparr> p_failed_allocs := p_failed_allocs p + 1 \<rparr>)
        | Some best_idx \<Rightarrow>
            let block = blocks p ! best_idx;
                split = (sz + MIMIC_MIN_BLOCK_SPLIT < bsize block
                         \<and> length (blocks p) < max_blocks);
                new_block = \<lparr> addr = addr block + sz, bsize = bsize block - sz,
                              task_id = 0, free = True, pinned = False \<rparr>;
                block1 = (if split then block \<lparr> bsize := sz \<rparr> else block);
                block2 = block1 \<lparr> free := False, task_id := tsk \<rparr>;
                bs1 = (if split then blocks p @ [new_block] else blocks p)
            in (addr block2,
                p \<lparr> blocks := bs1[best_idx := block2],
                    free_bytes := free_bytes p - bsize block2,
                    p_total_allocs := p_total_allocs p + 1 \<rparr>))"

text \<open>The search loop of \<open>mem_free_in_pool\<close>: the first block at \<open>ptr\<close> that is not
  free decides. \<open>None\<close>: no such block, or it is pinned; nothing changes.\<close>

fun find_used_block :: "MimicMemBlock list \<Rightarrow> u32 \<Rightarrow> nat \<Rightarrow> nat option" where
  "find_used_block [] ptr i = None"
| "find_used_block (b # bs) ptr i =
     (if addr b = ptr \<and> \<not> free b then (if pinned b then None else Some i)
      else find_used_block bs ptr (Suc i))"

definition mem_free_in_pool :: "pool \<Rightarrow> u32 \<Rightarrow> pool" where
  "mem_free_in_pool p ptr =
     (if ptr = 0 then p
      else case find_used_block (blocks p) ptr 0 of
             None \<Rightarrow> p
           | Some i \<Rightarrow>
               p \<lparr> blocks := (blocks p)[i := (blocks p ! i) \<lparr> free := True \<rparr>],
                   free_bytes := free_bytes p + bsize (blocks p ! i),
                   p_total_frees := p_total_frees p + 1 \<rparr>)"

text \<open>\<open>mem_coalesce_pool\<close>. The bubble sort runs \<open>i\<close> over \<open>0 .. count-2\<close> and \<open>j\<close> over
  \<open>0 .. count-i-2\<close>; the merge loop keeps a write index into the same array. With an
  empty table \<open>*block_count - 1\<close> wraps and the C code reads past the table: the model
  returns \<open>None\<close> there.\<close>

definition swap_if_greater :: "nat \<Rightarrow> MimicMemBlock list \<Rightarrow> MimicMemBlock list" where
  "swap_if_greater j bs =
     (if addr (bs ! Suc j) < addr (bs ! j) then bs[j := bs ! Suc j, Suc j := bs ! j]
      else bs)"

definition bubble_sort_blocks :: "MimicMemBlock list \<Rightarrow> MimicMemBlock list" where
  "bubble_sort_blocks bs =
     fold (\<lambda>i bs1. fold swap_if_greater [0 ..< length bs - i - 1] bs1)
          [0 ..< length bs - 1] bs"

definition merge_step :: "nat \<Rightarrow> MimicMemBlock list \<times> nat \<Rightarrow> MimicMemBlock list \<times> nat" where
  "merge_step i s =
     (let bs = fst s; w = snd s in
      if 0 < i \<and> free (bs ! (w - 1)) \<and> free (bs ! i)
         \<and> addr (bs ! (w - 1)) + bsize (bs ! (w - 1)) = addr (bs ! i)
      then (bs[w - 1 := (bs ! (w - 1)) \<lparr> bsize := bsize (bs ! (w - 1)) + bsize (bs ! i) \<rparr>], w)
      else ((if w \<noteq> i then bs[w := bs ! i] else bs), Suc w))"

definition merge_adjacent :: "MimicMemBlock list \<Rightarrow> MimicMemBlock list" where
  "merge_adjacent bs =
     (let r = fold merge_step [0 ..< length bs] (bs, 0) in take (snd r) (fst r))"

definition mem_coalesce_pool :: "MimicMemBlock list \<Rightarrow> MimicMemBlock list option" where
  "mem_coalesce_pool bs =
     (if bs = [] then None else Some (merge_adjacent (bubble_sort_blocks bs)))"

definition mem_init :: "platform \<Rightarrow> MimicKernel \<Rightarrow> MimicKernel" where
  "mem_init cfg k = k \<lparr>
     mem_blocks := [\<lparr> addr = kernel_heap cfg, bsize = MIMIC_KERNEL_HEAP cfg, task_id = 0,
                      free = True, pinned = False \<rparr>],
     kernel_free := MIMIC_KERNEL_HEAP cfg,
     user_blocks := [\<lparr> addr = user_heap cfg, bsize = MIMIC_USER_HEAP cfg, task_id = 0,
                       free = True, pinned = False \<rparr>],
     user_free := MIMIC_USER_HEAP cfg \<rparr>"

definition mimic_kmalloc :: "platform \<Rightarrow> u32 \<Rightarrow> MimicKernel \<Rightarrow> u32 \<times> MimicKernel" where
  "mimic_kmalloc cfg sz k =
     (let r = mem_alloc_from_pool (kernel_pool k) sz 0 (MIMIC_MAX_MEM_BLOCKS cfg)
      in (fst r, set_kernel_pool (snd r) k))"

definition mimic_kfree :: "u32 \<Rightarrow> MimicKernel \<Rightarrow> MimicKernel" where
  "mimic_kfree ptr k = set_kernel_pool (mem_free_in_pool (kernel_pool k) ptr) k"

definition mimic_umalloc :: "platform \<Rightarrow> u32 \<Rightarrow> u32 \<Rightarrow> MimicKernel \<Rightarrow> u32 \<times> MimicKernel" where
  "mimic_umalloc cfg tsk sz k =
     (let r = mem_alloc_from_pool (user_pool k) sz tsk (MIMIC_MAX_MEM_BLOCKS cfg)
      in (fst r, set_user_pool (snd r) k))"

text \<open>\<open>mimic_ufree\<close>: the ownership scan looks for a block at \<open>ptr\<close> tagged with the
  caller, whatever its free flag; only then is \<open>mem_free_in_pool\<close> called.\<close>

definition owns_block :: "MimicMemBlock list \<Rightarrow> u32 \<Rightarrow> u32 \<Rightarrow> bool" where
  "owns_block bs tsk ptr = list_ex (\<lambda>b. addr b = ptr \<and> task_id b = tsk) bs"

definition mimic_ufree :: "u32 \<Rightarrow> u32 \<Rightarrow> MimicKernel \<Rightarrow> MimicKernel" where
  "mimic_ufree tsk ptr k =
     (if owns_block (user_blocks k) tsk ptr
      then set_user_pool (mem_free_in_pool (user_pool k) ptr) k
      else k)"

text \<open>\<open>mimic_task_free_all_memory\<close>: one pass over the user table, then the coalesce.\<close>

definition free_owned :: "u32 \<Rightarrow> MimicMemBlock \<Rightarrow> MimicKernel \<Rightarrow> MimicKernel" where
  "free_owned tsk b k =
     (if task_id b = tsk \<and> \<not> free b
      then k \<lparr> user_free := user_free k + bsize b, total_frees := total_frees k + 1 \<rparr>
      else k)"

definition mark_owned_free :: "u32 \<Rightarrow> MimicMemBlock \<Rightarrow> MimicMemBlock" where
  "mark_owned_free tsk b = (if task_id b = tsk \<and> \<not> free b then b \<lparr> free := True \<rparr> else b)"

definition mimic_task_free_all_memory :: "u32 \<Rightarrow> MimicKernel \<Rightarrow> MimicKernel option" where
  "mimic_task_free_all_memory tsk k =
     (let k1 = fold (free_owned tsk) (user_blocks k) k;
          bs1 = map (mark_owned_free tsk) (user_blocks k)
      in case mem_coalesce_pool bs1 of
           None \<Rightarrow> None
         | Some bs2 \<Rightarrow> Some (k1 \<lparr> user_blocks := bs2 \<rparr>))"

text \<open>Concrete headers used to exercise the validator: \<open>hdr0\<close> is what the linker
  writes for a 6-byte text section on the RP2040 target; the others break one field each.\<close>

definition hdr0 :: MimiHeader where
  "hdr0 = \<lparr> magic = MIMI_MAGIC, version = MIMI_VERSION, flags = 0,
            arch = MIMI_ARCH_CORTEX_M0P, entry_offset = 0, text_size = 6,
            rodata_size = 0, data_size = 0, bss_size = 0, reloc_count = 0,
            symbol_count = 0, stack_request = 4096, heap_request = 8192,
            hname = [] \<rparr>"

definition hdr_bad_magic :: MimiHeader where
  "hdr_bad_magic = hdr0 \<lparr> magic := 0 \<rparr>"

definition hdr_bad_version :: MimiHeader where
  "hdr_bad_version = hdr0 \<lparr> version := 2 \<rparr>"

definition hdr_bad_arch :: MimiHeader where
  "hdr_bad_arch = hdr0 \<lparr> arch := MIMI_ARCH_RISCV \<rparr>"

definition hdr_entry_at_end :: MimiHeader where
  "hdr_entry_at_end = hdr0 \<lparr> entry_offset := 6 \<rparr>"

section \<open>Task table and scheduler (mimic_kernel.c)\<close>

text \<open>A zeroed TCB, as \<open>memset\<close> leaves it; \<open>TASK_STATE_FREE\<close> is the enum's 0.\<close>

definition tcb_zero :: MimicTCB where
  "tcb_zero = \<lparr> tid = 0, tname = replicate 16 0, state = TASK_STATE_FREE, priority = 0,
     running_core = 0, entry = 0,
     mem = \<lparr> m_base = 0, m_total_size = 0, m_text_start = 0, m_text_size = 0,
             m_rodata_start = 0, m_rodata_size = 0, m_data_start = 0, m_data_size = 0,
             m_bss_start = 0, m_bss_size = 0, m_heap_start = 0, m_heap_size = 0,
             m_heap_used = 0, m_stack_top = 0, m_stack_size = 0 \<rparr>,
     wake_time = 0, time_slice = 0, total_time_us = 0, start_time = 0, alloc_count = 0,
     free_count = 0, syscall_count = 0, sp = 0, regs = replicate 16 0 \<rparr>"

text \<open>The static \<open>kernel\<close> object before \<open>mimic_kernel_init\<close>: zero-initialised storage.
  The block tables hold no live entry and the task table is all zero.\<close>

definition kernel_zero :: "platform \<Rightarrow> MimicKernel" where
  "kernel_zero cfg = \<lparr> mem_blocks = [], user_blocks = [],
     tasks = replicate (MIMIC_MAX_TASKS cfg) tcb_zero, task_count = 0, current_task = 0,
     tick_count = 0, last_schedule_us = 0, running = False, preempt_pending = False,
     boot_time_us = 0, total_allocs = 0, total_frees = 0, failed_allocs = 0,
     programs_loaded = 0, syscalls_handled = 0, context_switches = 0,
     kernel_free = 0, user_free = 0, fs_mounted = False \<rparr>"

text \<open>\<open>strncpy(dst, src, n)\<close> into a field of \<open>n\<close> bytes: the string up to its NUL, cut at
  \<open>n\<close>, padded with zeros.\<close>

definition c_str :: "u8 list \<Rightarrow> u8 list" where
  "c_str bs = takeWhile (\<lambda>c. c \<noteq> 0) bs"

definition strncpy_field :: "nat \<Rightarrow> u8 list \<Rightarrow> u8 list" where
  "strncpy_field n src = take n (c_str src) @ replicate (n - length (c_str src)) 0"

text \<open>The bytes of "kernel".\<close>

definition str_kernel :: "u8 list" where
  "str_kernel = [0x6B, 0x65, 0x72, 0x6E, 0x65, 0x6C]"

definition task_init :: "platform \<Rightarrow> MimicKernel \<Rightarrow> MimicKernel" where
  "task_init cfg k =
     (let ts = replicate (MIMIC_MAX_TASKS cfg) tcb_zero;
          idle = (ts ! 0) \<lparr> tid := 0, tname := strncpy_field 16 str_kernel,
                             state := TASK_STATE_READY, priority := 255 \<rparr>
      in k \<lparr> tasks := ts[0 := idle], task_count := 1, current_task := 0 \<rparr>)"

definition mimic_kernel_init :: "platform \<Rightarrow> u64 \<Rightarrow> MimicKernel \<Rightarrow> MimicKernel" where
  "mimic_kernel_init cfg now_us k =
     task_init cfg (mem_init cfg (k \<lparr> boot_time_us := now_us, running := False \<rparr>))"

text \<open>\<open>task_alloc\<close>: the first FREE slot among \<open>1 .. MIMIC_MAX_TASKS-1\<close>; the result is
  the slot's index (the C code returns a pointer to it), \<open>None\<close> for NULL.\<close>

definition task_alloc :: "platform \<Rightarrow> MimicKernel \<Rightarrow> nat option \<times> MimicKernel" where
  "task_alloc cfg k =
     (case find (\<lambda>i. state (tasks k ! i) = TASK_STATE_FREE) [1 ..< MIMIC_MAX_TASKS cfg] of
        None \<Rightarrow> (None, k)
      | Some i \<Rightarrow>
          (Some i,
           k \<lparr> tasks := (tasks k)[i := (tasks k ! i) \<lparr> tid := of_nat i,
                                                      state := TASK_STATE_BLOCKED \<rparr>],
               task_count := task_count k + 1 \<rparr>))"

definition set_task_state :: "nat \<Rightarrow> MimicTaskState \<Rightarrow> MimicKernel \<Rightarrow> MimicKernel" where
  "set_task_state i st k = k \<lparr> tasks := (tasks k)[i := (tasks k ! i) \<lparr> state := st \<rparr>] \<rparr>"

text \<open>\<open>mimic_task_kill\<close>. \<open>None\<close> only where the coalesce would read past an empty
  block table.\<close>

definition mimic_task_kill :: "platform \<Rightarrow> u32 \<Rightarrow> MimicKernel \<Rightarrow> MimicKernel option" where
  "mimic_task_kill cfg tsk k =
     (if tsk = 0 \<or> MIMIC_MAX_TASKS cfg \<le> unat tsk then Some k
      else if state (tasks k ! unat tsk) \<noteq> TASK_STATE_FREE then
        (case mimic_task_free_all_memory tsk (set_task_state (unat tsk) TASK_STATE_ZOMBIE k) of
           None \<Rightarrow> None
         | Some k1 \<Rightarrow>
             Some ((set_task_state (unat tsk) TASK_STATE_FREE k1)
                     \<lparr> task_count := task_count k1 - 1 \<rparr>))
      else Some k)"

text \<open>\<open>scheduler_tick\<close>; \<open>now_us\<close> is what \<open>time_us_64()\<close> returns. First loop: wake the
  sleepers that are due. Second loop: the READY task with the lowest priority value
  among slots \<open>1 .. MIMIC_MAX_TASKS-1\<close>, slot 0 (idle) by default; only a strictly
  smaller priority replaces the candidate. \<open>next\<close> is a pointer into the table: the
  model carries its index.\<close>

definition wake_step :: "u64 \<Rightarrow> nat \<Rightarrow> MimicTCB list \<Rightarrow> MimicTCB list" where
  "wake_step now_ms i ts =
     (if state (ts ! i) = TASK_STATE_SLEEPING \<and> ucast (wake_time (ts ! i)) \<le> now_ms
      then ts[i := (ts ! i) \<lparr> state := TASK_STATE_READY \<rparr>] else ts)"

definition pick_step :: "MimicTCB list \<Rightarrow> nat \<Rightarrow> nat \<times> u8 \<Rightarrow> nat \<times> u8" where
  "pick_step ts i s =
     (if state (ts ! i) = TASK_STATE_READY \<and> priority (ts ! i) < snd s
      then (i, priority (ts ! i)) else s)"

definition scheduler_tick :: "platform \<Rightarrow> u64 \<Rightarrow> MimicKernel \<Rightarrow> MimicKernel" where
  "scheduler_tick cfg now_us k =
     (if \<not> running k then k
      else
        let k1 = k \<lparr> tick_count := tick_count k + 1 \<rparr>;
            now_ms = now_us div 1000;
            ts1 = fold (wake_step now_ms) [1 ..< MIMIC_MAX_TASKS cfg] (tasks k1);
            nxt = fst (fold (pick_step ts1) [1 ..< MIMIC_MAX_TASKS cfg] (0, 255));
            k2 = k1 \<lparr> tasks := ts1 \<rparr>;
            k3 = (if tid (ts1 ! nxt) \<noteq> ucast (current_task k2) then
                    let ts2 = ts1[unat (current_task k2) :=
                                 (ts1 ! unat (current_task k2)) \<lparr> state := TASK_STATE_READY \<rparr>];
                        cur = ucast (tid (ts2 ! nxt));
                        ts3 = ts2[nxt := (ts2 ! nxt) \<lparr> state := TASK_STATE_RUNNING \<rparr>]
                    in k2 \<lparr> tasks := ts3, current_task := cur,
                            context_switches := context_switches k2 + 1 \<rparr>
                  else k2)
        in k3 \<lparr> last_schedule_us := now_us \<rparr>)"

definition mimic_task_yield :: "platform \<Rightarrow> u64 \<Rightarrow> MimicKernel \<Rightarrow> MimicKernel" where
  "mimic_task_yield cfg now_us k = scheduler_tick cfg now_us (k \<lparr> preempt_pending := True \<rparr>)"

definition mimic_task_sleep :: "platform \<Rightarrow> u64 \<Rightarrow> u32 \<Rightarrow> MimicKernel \<Rightarrow> MimicKernel" where
  "mimic_task_sleep cfg now_us ms k =
     (if current_task k = 0 then k
      else
        let i = unat (current_task k);
            t = (tasks k ! i) \<lparr> wake_time := ucast (now_us div 1000 + ucast ms),
                                state := TASK_STATE_SLEEPING \<rparr>
        in scheduler_tick cfg now_us (k \<lparr> tasks := (tasks k)[i := t] \<rparr>))"

text \<open>What \<open>mimic_task_load\<close> does to a slot once \<open>mimic_load_binary\<close> has succeeded.\<close>

definition task_make_ready :: "nat \<Rightarrow> u8 \<Rightarrow> u64 \<Rightarrow> MimicKernel \<Rightarrow> MimicKernel" where
  "task_make_ready i prio now_us k =
     k \<lparr> tasks := (tasks k)[i := (tasks k ! i) \<lparr> priority := prio,
              start_time := ucast (now_us div 1000), state := TASK_STATE_READY \<rparr>] \<rparr>"

text \<open>A concrete RP2040 platform, the kernel right after \<open>mimic_kernel_init\<close> on it, and
  the state of the spec's scenario 6: task A (priority 2) loaded into slot 1 and task B
  (priority 5) into slot 2, both READY, and the kernel running.\<close>

definition cfg_rp2040 :: platform where
  "cfg_rp2040 = \<lparr> rp2350 = False, kernel_heap = 0x20030000, user_heap = 0x20000000 \<rparr>"

definition k_boot :: MimicKernel where
  "k_boot = mimic_kernel_init cfg_rp2040 0 (kernel_zero cfg_rp2040)"

definition two_tasks_ready :: MimicKernel where
  "two_tasks_ready =
     (let k1 = snd (task_alloc cfg_rp2040 k_boot);
          k2 = task_make_ready 1 2 0 k1;
          k3 = snd (task_alloc cfg_rp2040 k2);
          k4 = task_make_ready 2 5 0 k3
      in k4 \<lparr> running := True \<rparr>)"

section \<open>Syscall dispatch (mimic_kernel.c)\<close>

text \<open>Syscall numbers of mimic.h.\<close>

abbreviation (input) MIMIC_SYS_EXIT :: u32 where "MIMIC_SYS_EXIT \<equiv> 0"
abbreviation (input) MIMIC_SYS_YIELD :: u32 where "MIMIC_SYS_YIELD \<equiv> 1"
abbreviation (input) MIMIC_SYS_SLEEP :: u32 where "MIMIC_SYS_SLEEP \<equiv> 2"
abbreviation (input) MIMIC_SYS_TIME :: u32 where "MIMIC_SYS_TIME \<equiv> 3"
abbreviation (input) MIMIC_SYS_MALLOC :: u32 where "MIMIC_SYS_MALLOC \<equiv> 10"
abbreviation (input) MIMIC_SYS_FREE :: u32 where "MIMIC_SYS_FREE \<equiv> 11"
abbreviation (input) MIMIC_SYS_REALLOC :: u32 where "MIMIC_SYS_REALLOC \<equiv> 12"
abbreviation (input) MIMIC_SYS_OPEN :: u32 where "MIMIC_SYS_OPEN \<equiv> 20"
abbreviation (input) MIMIC_SYS_CLOSE :: u32 where "MIMIC_SYS_CLOSE \<equiv> 21"
abbreviation (input) MIMIC_SYS_READ :: u32 where "MIMIC_SYS_READ \<equiv> 22"
abbreviation (input) MIMIC_SYS_WRITE :: u32 where "MIMIC_SYS_WRITE \<equiv> 23"
abbreviation (input) MIMIC_SYS_SEEK :: u32 where "MIMIC_SYS_SEEK \<equiv> 24"
abbreviation (input) MIMIC_SYS_PUTCHAR :: u32 where "MIMIC_SYS_PUTCHAR \<equiv> 30"
abbreviation (input) MIMIC_SYS_GETCHAR :: u32 where "MIMIC_SYS_GETCHAR \<equiv> 31"
abbreviation (input) MIMIC_SYS_PUTS :: u32 where "MIMIC_SYS_PUTS \<equiv> 32"
abbreviation (input) MIMIC_SYS_GPIO_INIT :: u32 where "MIMIC_SYS_GPIO_INIT \<equiv> 40"
abbreviation (input) MIMIC_SYS_GPIO_DIR :: u32 where "MIMIC_SYS_GPIO_DIR \<equiv> 41"
abbreviation (input) MIMIC_SYS_GPIO_PUT :: u32 where "MIMIC_SYS_GPIO_PUT \<equiv> 42"
abbreviation (input) MIMIC_SYS_GPIO_GET :: u32 where "MIMIC_SYS_GPIO_GET \<equiv> 43"
abbreviation (input) MIMIC_SYS_GPIO_PULL :: u32 where "MIMIC_SYS_GPIO_PULL \<equiv> 44"

text \<open>What the dispatcher calls outside the kernel: the clock, stdio, the GPIO driver and
  the file layer. They act on an environment \<open>'w\<close> the kernel model does not look into;
  each returns the value the C call returns (as the 32-bit word that ends up in
  \<open>r0\<close>) and the new environment. The clock is read without changing the
  environment.\<close>

record 'w externals =
  x_time_us_64 :: "'w \<Rightarrow> u64"
  x_putchar :: "u32 \<Rightarrow> 'w \<Rightarrow> 'w"
  x_getchar :: "'w \<Rightarrow> u32 \<times> 'w"
  x_printf_s :: "u32 \<Rightarrow> 'w \<Rightarrow> 'w"
  x_gpio_init :: "u32 \<Rightarrow> 'w \<Rightarrow> 'w"
  x_gpio_set_dir :: "u32 \<Rightarrow> u32 \<Rightarrow> 'w \<Rightarrow> 'w"
  x_gpio_put :: "u32 \<Rightarrow> u32 \<Rightarrow> 'w \<Rightarrow> 'w"
  x_gpio_get :: "u32 \<Rightarrow> 'w \<Rightarrow> bool"
  x_gpio_pull_up :: "u32 \<Rightarrow> 'w \<Rightarrow> 'w"
  x_gpio_pull_down :: "u32 \<Rightarrow> 'w \<Rightarrow> 'w"
  x_gpio_disable_pulls :: "u32 \<Rightarrow> 'w \<Rightarrow> 'w"
  x_fopen :: "u32 \<Rightarrow> u32 \<Rightarrow> 'w \<Rightarrow> u32 \<times> 'w"
  x_fclose :: "u32 \<Rightarrow> 'w \<Rightarrow> u32 \<times> 'w"
  x_fread :: "u32 \<Rightarrow> u32 \<Rightarrow> u32 \<Rightarrow> 'w \<Rightarrow> u32 \<times> 'w"
  x_fwrite :: "u32 \<Rightarrow> u32 \<Rightarrow> u32 \<Rightarrow> 'w \<Rightarrow> u32 \<times> 'w"
  x_fseek :: "u32 \<Rightarrow> u32 \<Rightarrow> u32 \<Rightarrow> 'w \<Rightarrow> u32 \<times> 'w"

text \<open>\<open>mimic_syscall\<close>: the \<open>switch\<close> in the source's order, \<open>default\<close> last. The result
  is the returned \<open>int32_t\<close> as a word, the kernel state and the environment; \<open>None\<close>
  only where \<open>mimic_task_kill\<close> has none.\<close>

definition mimic_syscall ::
  "platform \<Rightarrow> 'w externals \<Rightarrow> u32 \<Rightarrow> u32 \<Rightarrow> u32 \<Rightarrow> u32 \<Rightarrow> u32 \<Rightarrow> MimicKernel \<times> 'w
   \<Rightarrow> (u32 \<times> MimicKernel \<times> 'w) option" where
  "mimic_syscall cfg x num a0 a1 a2 a3 s =
     (let k = (fst s) \<lparr> syscalls_handled := syscalls_handled (fst s) + 1 \<rparr>;
          w = snd s;
          tsk = (ucast (current_task k) :: u32)
      in
      if num = MIMIC_SYS_EXIT then
        (case mimic_task_kill cfg tsk k of None \<Rightarrow> None | Some k1 \<Rightarrow> Some (0, k1, w))
      else if num = MIMIC_SYS_YIELD then
        Some (0, mimic_task_yield cfg (x_time_us_64 x w) k, w)
      else if num = MIMIC_SYS_SLEEP then
        Some (0, mimic_task_sleep cfg (x_time_us_64 x w) a0 k, w)
      else if num = MIMIC_SYS_TIME then
        Some (ucast ((x_time_us_64 x w - boot_time_us k) div 1000), k, w)
      else if num = MIMIC_SYS_MALLOC then
        (let r = mimic_umalloc cfg tsk a0 k in Some (fst r, snd r, w))
      else if num = MIMIC_SYS_FREE then
        Some (0, mimic_ufree tsk a0 k, w)
      else if num = MIMIC_SYS_PUTCHAR then
        Some (a0, k, x_putchar x a0 w)
      else if num = MIMIC_SYS_GETCHAR then
        (let r = x_getchar x w in Some (fst r, k, snd r))
      else if num = MIMIC_SYS_PUTS then
        Some (0, k, x_printf_s x a0 w)
      else if num = MIMIC_SYS_GPIO_INIT then
        Some (0, k, x_gpio_init x a0 w)
      else if num = MIMIC_SYS_GPIO_DIR then
        Some (0, k, x_gpio_set_dir x a0 a1 w)
      else if num = MIMIC_SYS_GPIO_PUT then
        Some (0, k, x_gpio_put x a0 a1 w)
      else if num = MIMIC_SYS_GPIO_GET then
        Some ((if x_gpio_get x a0 w then 1 else 0), k, w)
      else if num = MIMIC_SYS_GPIO_PULL then
        Some (0, k, (if a1 = 1 then x_gpio_pull_up x a0 w
                     else if a1 = 2 then x_gpio_pull_down x a0 w
                     else x_gpio_disable_pulls x a0 w))
      else if num = MIMIC_SYS_OPEN then
        (let r = x_fopen x a0 a1 w in Some (fst r, k, snd r))
      else if num = MIMIC_SYS_CLOSE then
        (let r = x_fclose x a0 w in Some (fst r, k, snd r))
      else if num = MIMIC_SYS_READ then
        (let r = x_fread x a0 a1 a2 w in Some (fst r, k, snd r))
      else if num = MIMIC_SYS_WRITE then
        (let r = x_fwrite x a0 a1 a2 w in Some (fst r, k, snd r))
      else if num = MIMIC_SYS_SEEK then
        (let r = x_fseek x a0 a1 a2 w in Some (fst r, k, snd r))
      else Some (word_of_int MIMIC_ERR_NOSYS, k, w))"

text \<open>The numbers of the spec's syscall table (section 6).\<close>

definition syscall_table :: "u32 list" where
  "syscall_table = [0, 1, 2, 3, 10, 11, 12, 20, 21, 22, 23, 24, 30, 31, 32,
     40, 41, 42, 43, 44, 50, 51, 52, 53, 60, 61, 62, 63, 70, 71, 72, 73, 80, 81, 82]"

section \<open>Binary loader (mimic_kernel.c)\<close>

text \<open>RAM as the loader writes it: bytes at 32-bit addresses, little-endian (Cortex-M).
  A store through a \<open>uint16_t*\<close> or \<open>uint32_t*\<close> writes 2 or 4 consecutive bytes.
  \<open>write_bytes\<close>, \<open>store16\<close> and \<open>store32\<close> say which bytes a store changes; whether the
  store is one the loader may make is \<open>block_holds\<close> and \<open>reloc_store_defined\<close> below, and
  the loader's functions test it before every store.\<close>

type_synonym ram = "u32 \<Rightarrow> u8"

fun write_bytes :: "ram \<Rightarrow> u32 \<Rightarrow> u8 list \<Rightarrow> ram" where
  "write_bytes m a [] = m"
| "write_bytes m a (b # bs) = write_bytes (m(a := b)) (a + 1) bs"

definition store16 :: "ram \<Rightarrow> u32 \<Rightarrow> u16 \<Rightarrow> ram" where
  "store16 m a v = write_bytes m a [ucast v, ucast (drop_bit 8 v)]"

definition store32 :: "ram \<Rightarrow> u32 \<Rightarrow> u32 \<Rightarrow> ram" where
  "store32 m a v =
     write_bytes m a [ucast v, ucast (drop_bit 8 v), ucast (drop_bit 16 v), ucast (drop_bit 24 v)]"

definition load16 :: "ram \<Rightarrow> u32 \<Rightarrow> u16" where
  "load16 m a = ucast (m a) OR push_bit 8 (ucast (m (a + 1)))"

text \<open>Little-endian fields of a packed record held in a byte list.\<close>

definition le16 :: "u8 list \<Rightarrow> nat \<Rightarrow> u16" where
  "le16 bs i = ucast (bs ! i) OR push_bit 8 (ucast (bs ! (i + 1)))"

definition le32 :: "u8 list \<Rightarrow> nat \<Rightarrow> u32" where
  "le32 bs i = ucast (bs ! i) OR push_bit 8 (ucast (bs ! (i + 1)))
               OR push_bit 16 (ucast (bs ! (i + 2))) OR push_bit 24 (ucast (bs ! (i + 3)))"

text \<open>\<open>MimiReloc\<close> (12 bytes) and \<open>MimiSymbol\<close> (24 bytes); the fields carry the prefixes
  \<open>r_\<close> and \<open>s_\<close>. \<open>r_pad\<close> and \<open>s_pad\<close> are the members \<open>_pad\<close> of the two records.\<close>

record MimiReloc =
  r_offset :: u32
  r_section :: u16
  r_type :: u8
  r_pad :: u8
  r_symbol_idx :: u32

record MimiSymbol =
  s_name :: "u8 list"
  s_value :: u32
  s_section :: u8
  s_type :: u8
  s_pad :: u16

abbreviation (input) MIMI_RELOC_ABS32 :: u8 where "MIMI_RELOC_ABS32 \<equiv> 0"
abbreviation (input) MIMI_RELOC_REL32 :: u8 where "MIMI_RELOC_REL32 \<equiv> 1"
abbreviation (input) MIMI_RELOC_THUMB_CALL :: u8 where "MIMI_RELOC_THUMB_CALL \<equiv> 2"
abbreviation (input) MIMI_RELOC_THUMB_BRANCH :: u8 where "MIMI_RELOC_THUMB_BRANCH \<equiv> 3"
abbreviation (input) MIMI_RELOC_DATA_PTR :: u8 where "MIMI_RELOC_DATA_PTR \<equiv> 4"

abbreviation (input) MIMI_SYM_LOCAL :: u8 where "MIMI_SYM_LOCAL \<equiv> 0"
abbreviation (input) MIMI_SYM_GLOBAL :: u8 where "MIMI_SYM_GLOBAL \<equiv> 1"
abbreviation (input) MIMI_SYM_EXTERN :: u8 where "MIMI_SYM_EXTERN \<equiv> 2"
abbreviation (input) MIMI_SYM_SYSCALL :: u8 where "MIMI_SYM_SYSCALL \<equiv> 3"

text \<open>The packed \<open>MimiHeader\<close>: its fields add up to 68 bytes (4 + 4 + 4 + 16 + 8 + 8 +
  16 + 8), which is what \<open>sizeof(MimiHeader)\<close> is for the loader and the linker.\<close>

abbreviation (input) sizeof_MimiHeader :: nat where "sizeof_MimiHeader \<equiv> 68"
abbreviation (input) sizeof_MimiReloc :: nat where "sizeof_MimiReloc \<equiv> 12"
abbreviation (input) sizeof_MimiSymbol :: nat where "sizeof_MimiSymbol \<equiv> 24"

definition decode_header :: "u8 list \<Rightarrow> MimiHeader" where
  "decode_header bs = \<lparr> magic = le32 bs 0, version = bs ! 4, flags = bs ! 5, arch = bs ! 6,
     entry_offset = le32 bs 8, text_size = le32 bs 12, rodata_size = le32 bs 16,
     data_size = le32 bs 20, bss_size = le32 bs 24, reloc_count = le32 bs 28,
     symbol_count = le32 bs 32, stack_request = le32 bs 36, heap_request = le32 bs 40,
     hname = take 16 (drop 44 bs) \<rparr>"

definition decode_reloc :: "u8 list \<Rightarrow> MimiReloc" where
  "decode_reloc bs = \<lparr> r_offset = le32 bs 0, r_section = le16 bs 4, r_type = bs ! 6,
     r_pad = bs ! 7, r_symbol_idx = le32 bs 8 \<rparr>"

definition decode_symbol :: "u8 list \<Rightarrow> MimiSymbol" where
  "decode_symbol bs = \<lparr> s_name = take 16 bs, s_value = le32 bs 16, s_section = bs ! 20,
     s_type = bs ! 21, s_pad = le16 bs 22 \<rparr>"

text \<open>An open file as the loader sees it through \<open>mimic_fread\<close> and \<open>mimic_fseek\<close>: its
  bytes and a position. \<open>mimic_fread\<close> hands out the next bytes, fewer than asked for at
  the end of the file; device errors are outside this model. \<open>mimic_fseek(fd, off,
  MIMIC_SEEK_SET)\<close> takes an \<open>int32_t\<close> and clamps it to \<open>0 .. file_size\<close>.\<close>

record mfile =
  f_data :: "u8 list"
  f_pos :: nat

definition mimic_fread :: "mfile \<Rightarrow> nat \<Rightarrow> u8 list \<times> mfile" where
  "mimic_fread f n =
     (let bs = take n (drop (f_pos f) (f_data f))
      in (bs, f \<lparr> f_pos := f_pos f + length bs \<rparr>))"

definition mimic_fseek_set :: "mfile \<Rightarrow> u32 \<Rightarrow> mfile" where
  "mimic_fseek_set f off =
     (let p0 = sint off;
          p1 = (if p0 < 0 then 0 else p0);
          fsz = sint (word_of_nat (length (f_data f)) :: u32);
          p2 = (if fsz < p1 then fsz else p1)
      in f \<lparr> f_pos := nat p2 \<rparr>)"

text \<open>The two halfwords the loader computes for a \<open>THUMB_CALL\<close> from \<open>offset =
  sym_value - patch_addr - 4\<close>. \<open>offset\<close> is an \<open>int32_t\<close>: \<open>>>\<close> is the arithmetic
  shift; the results are truncated to \<open>uint16_t\<close> on the store.\<close>

definition thumb_call_halfwords :: "u32 \<Rightarrow> u16 \<times> u16" where
  "thumb_call_halfwords offset =
     (let s = signed_drop_bit 24 offset AND 1;
          i1 = signed_drop_bit 23 offset AND 1;
          i2 = signed_drop_bit 22 offset AND 1;
          imm10 = signed_drop_bit 12 offset AND 0x3FF;
          imm11 = signed_drop_bit 1 offset AND 0x7FF;
          j1 = (NOT i1 XOR s) AND 1;
          j2 = (NOT i2 XOR s) AND 1
      in (ucast (0xF000 OR push_bit 10 s OR imm10),
          ucast (0xD000 OR push_bit 13 j1 OR push_bit 11 j2 OR imm11)))"

text \<open>The block \<open>mimic_umalloc\<close> returned for the task: \<open>total_size\<close> bytes from \<open>base\<close>. A
  write of \<open>n\<close> bytes at \<open>a\<close> stays inside it when \<open>block_holds\<close>; a write of no byte
  always does. The loader checks none of its writes. Outside the block C gives a write
  no meaning: on the device it faults or overwrites memory that is not the task's.\<close>

definition block_holds :: "u32 \<Rightarrow> u32 \<Rightarrow> u32 \<Rightarrow> nat \<Rightarrow> bool" where
  "block_holds base total_size a n =
     (n = 0 \<or> (uint base \<le> uint a \<and> uint a + int n \<le> uint base + uint total_size))"

text \<open>The store of a relocation of type \<open>ty\<close> at \<open>patch_addr\<close> has a meaning: it goes through
  a \<open>uint32_t*\<close> (\<open>ABS32\<close>, \<open>REL32\<close>) or as \<open>instr[0]\<close>, \<open>instr[1]\<close> through a \<open>uint16_t*\<close>
  (\<open>THUMB_CALL\<close>), so the address must be aligned for that type (C gives a misaligned
  store no meaning, and the Cortex-M0+ faults on it) and the 4 bytes must lie in the
  task's block. The other types store nothing.\<close>

definition reloc_store_defined :: "MimicTaskMem \<Rightarrow> u32 \<Rightarrow> u8 \<Rightarrow> u32 \<Rightarrow> bool" where
  "reloc_store_defined tm base ty patch_addr =
     (if ty = MIMI_RELOC_ABS32 \<or> ty = MIMI_RELOC_REL32
      then patch_addr AND 3 = 0 \<and> block_holds base (m_total_size tm) patch_addr 4
      else if ty = MIMI_RELOC_THUMB_CALL
      then patch_addr AND 1 = 0 \<and> block_holds base (m_total_size tm) patch_addr 4
      else True)"

text \<open>The \<open>switch (reloc.type)\<close>: there is no case for \<open>THUMB_BRANCH\<close>, \<open>DATA_PTR\<close> or any
  other value, and no \<open>default\<close>. \<open>patch_reloc\<close> gives the bytes the switch stores;
  \<open>apply_reloc\<close> calls it only where \<open>reloc_store_defined\<close>.\<close>

definition patch_reloc :: "u8 \<Rightarrow> u32 \<Rightarrow> u32 \<Rightarrow> ram \<Rightarrow> ram" where
  "patch_reloc ty patch_addr sym_value m =
     (if ty = MIMI_RELOC_ABS32 then store32 m patch_addr sym_value
      else if ty = MIMI_RELOC_REL32 then store32 m patch_addr (sym_value - patch_addr - 4)
      else if ty = MIMI_RELOC_THUMB_CALL then
        (let hw = thumb_call_halfwords (sym_value - patch_addr - 4)
         in store16 (store16 m patch_addr (fst hw)) (patch_addr + 2) (snd hw))
      else m)"

text \<open>The first \<open>switch (reloc.section)\<close>: \<open>None\<close> is the \<open>default: continue\<close>.\<close>

definition reloc_patch_addr :: "MimicTaskMem \<Rightarrow> u32 \<Rightarrow> MimiReloc \<Rightarrow> u32 option" where
  "reloc_patch_addr tm base r =
     (if r_section r = 1 then Some (base + m_text_start tm + r_offset r)
      else if r_section r = 2 then Some (base + m_rodata_start tm + r_offset r)
      else if r_section r = 3 then Some (base + m_data_start tm + r_offset r)
      else None)"

text \<open>The symbol's value. \<open>symtab\<close> is the table read into the kernel buffer (\<open>None\<close>: the
  pointer is NULL). The lookup happens only under \<open>reloc.symbol_idx < hdr.symbol_count
  && symtab\<close>. The outer \<open>None\<close> marks a read past the buffer, which C leaves
  undefined; it needs \<open>symbol_count * 24\<close> to have wrapped.\<close>

definition symbol_runtime_value :: "MimicTaskMem \<Rightarrow> u32 \<Rightarrow> MimiSymbol \<Rightarrow> u32" where
  "symbol_runtime_value tm base sy =
     (if s_section sy = 1 then base + m_text_start tm + s_value sy
      else if s_section sy = 2 then base + m_rodata_start tm + s_value sy
      else if s_section sy = 3 then base + m_data_start tm + s_value sy
      else if s_section sy = 4 then base + m_bss_start tm + s_value sy
      else s_value sy)"

definition reloc_sym_value ::
  "MimiHeader \<Rightarrow> MimiSymbol list option \<Rightarrow> MimicTaskMem \<Rightarrow> u32 \<Rightarrow> MimiReloc \<Rightarrow> u32 option" where
  "reloc_sym_value hdr symtab tm base r =
     (case symtab of
        None \<Rightarrow> Some 0
      | Some syms \<Rightarrow>
          if r_symbol_idx r < symbol_count hdr then
            (if unat (r_symbol_idx r) < length syms
             then Some (symbol_runtime_value tm base (syms ! unat (r_symbol_idx r)))
             else None)
          else Some 0)"

text \<open>One relocation, once its 12 bytes have been read: the body of the loop. \<open>None\<close>:
  the body reads a symbol past the table or stores where \<open>reloc_store_defined\<close> does not
  hold; what the loader then does is not defined.\<close>

definition apply_reloc ::
  "MimiHeader \<Rightarrow> MimiSymbol list option \<Rightarrow> MimicTaskMem \<Rightarrow> u32 \<Rightarrow> MimiReloc \<Rightarrow> ram
   \<Rightarrow> ram option" where
  "apply_reloc hdr symtab tm base r m =
     (case reloc_patch_addr tm base r of
        None \<Rightarrow> Some m
      | Some patch_addr \<Rightarrow>
          (case reloc_sym_value hdr symtab tm base r of
             None \<Rightarrow> None
           | Some sym_value \<Rightarrow>
               if reloc_store_defined tm base (r_type r) patch_addr
               then Some (patch_reloc (r_type r) patch_addr sym_value m)
               else None))"

text \<open>The relocation loop, \<open>n\<close> records to go. The result is \<open>MIMIC_OK\<close>, or
  \<open>MIMIC_ERR_CORRUPT\<close> when a record could not be read in full, with RAM as the loop
  left it. No other return ends the loop early; \<open>None\<close>: the body of the loop was not
  defined for one of the records.\<close>

fun process_relocs ::
  "nat \<Rightarrow> MimiHeader \<Rightarrow> MimiSymbol list option \<Rightarrow> MimicTaskMem \<Rightarrow> u32 \<Rightarrow> mfile \<Rightarrow> ram
   \<Rightarrow> (int \<times> ram) option" where
  "process_relocs 0 hdr symtab tm base f m = Some (MIMIC_OK, m)"
| "process_relocs (Suc n) hdr symtab tm base f m =
     (let rd = mimic_fread f sizeof_MimiReloc in
      if length (fst rd) \<noteq> sizeof_MimiReloc then Some (MIMIC_ERR_CORRUPT, m)
      else case apply_reloc hdr symtab tm base (decode_reloc (fst rd)) m of
             None \<Rightarrow> None
           | Some m1 \<Rightarrow> process_relocs n hdr symtab tm base (snd rd) m1)"

text \<open>\<open>n = mimic_fread(fd, ptr + start, size); if (n != (int)size) ...\<close>: the bytes read
  land in RAM whether or not the check then passes. \<open>None\<close>: they do not fit the task's
  block (the sums of the header's sizes have wrapped).\<close>

definition read_section ::
  "u32 \<Rightarrow> u32 \<Rightarrow> mfile \<Rightarrow> ram \<Rightarrow> u32 \<Rightarrow> u32 \<Rightarrow> (bool \<times> mfile \<times> ram) option" where
  "read_section base total_size f m dst sz =
     (let rd = mimic_fread f (unat sz) in
      if block_holds base total_size dst (length (fst rd))
      then Some (int (length (fst rd)) = sint sz, snd rd, write_bytes m dst (fst rd))
      else None)"

text \<open>.text, then .rodata and .data when not empty, then the \<open>memset\<close> of .bss.
  \<open>Inl\<close>: a section came short (the caller frees the arena and returns
  \<open>MIMIC_ERR_IO\<close>). \<open>None\<close>: a write outside the task's block.\<close>

definition load_sections ::
  "MimiHeader \<Rightarrow> MimicTaskMem \<Rightarrow> u32 \<Rightarrow> mfile \<Rightarrow> ram
   \<Rightarrow> ((mfile \<times> ram) + (mfile \<times> ram)) option" where
  "load_sections hdr tm base f m =
     (case read_section base (m_total_size tm) f m (base + m_text_start tm) (text_size hdr) of
        None \<Rightarrow> None
      | Some t \<Rightarrow>
          if \<not> fst t then Some (Inl (snd t))
          else
            (case (if rodata_size hdr \<noteq> 0
                   then read_section base (m_total_size tm) (fst (snd t)) (snd (snd t))
                          (base + m_rodata_start tm) (rodata_size hdr)
                   else Some (True, snd t)) of
               None \<Rightarrow> None
             | Some r \<Rightarrow>
                 if \<not> fst r then Some (Inl (snd r))
                 else
                   (case (if data_size hdr \<noteq> 0
                          then read_section base (m_total_size tm) (fst (snd r)) (snd (snd r))
                                 (base + m_data_start tm) (data_size hdr)
                          else Some (True, snd r)) of
                      None \<Rightarrow> None
                    | Some d \<Rightarrow>
                        if \<not> fst d then Some (Inl (snd d))
                        else if block_holds base (m_total_size tm) (base + m_bss_start tm)
                                  (unat (bss_size hdr))
                        then Some (Inr (fst (snd d),
                                        write_bytes (snd (snd d)) (base + m_bss_start tm)
                                          (replicate (unat (bss_size hdr)) 0)))
                        else None)))"

definition decode_symbols :: "u8 list \<Rightarrow> MimiSymbol list" where
  "decode_symbols bs =
     map (\<lambda>i. decode_symbol (take sizeof_MimiSymbol (drop (sizeof_MimiSymbol * i) bs)))
         [0 ..< length bs div sizeof_MimiSymbol]"

text \<open>The layout \<open>mimic_load_binary\<close> writes into \<open>task->mem\<close>.\<close>

definition task_layout :: "MimiHeader \<Rightarrow> u32 \<Rightarrow> u32 \<Rightarrow> u32 \<Rightarrow> u32 \<Rightarrow> MimicTaskMem" where
  "task_layout hdr base total_size stack_size heap_size =
     (let rodata_start = text_size hdr;
          data_start = rodata_start + rodata_size hdr;
          bss_start = data_start + data_size hdr;
          sections_end = bss_start + bss_size hdr
      in \<lparr> m_base = base, m_total_size = total_size, m_text_start = 0,
           m_text_size = text_size hdr, m_rodata_start = rodata_start,
           m_rodata_size = rodata_size hdr, m_data_start = data_start,
           m_data_size = data_size hdr, m_bss_start = bss_start, m_bss_size = bss_size hdr,
           m_heap_start = sections_end, m_heap_size = heap_size, m_heap_used = 0,
           m_stack_top = total_size, m_stack_size = stack_size \<rparr>)"

text \<open>The block \<open>if (hdr.reloc_count > 0) { ... }\<close>. The result is the code the block
  ends with (\<open>MIMIC_OK\<close>: fall through to the rest of the loader), RAM and the kernel
  state, the kernel buffer already freed. The sums of sizes are 32-bit unsigned and
  wrap; the seek offsets pass through \<open>int32_t\<close>. \<open>None\<close>: the symbol table read does not
  fit the kernel buffer (\<open>symbol_count * 24\<close> came so close to \<open>2^32\<close> that the allocator's
  rounding wrapped), or the relocation loop has no result.\<close>

definition load_relocations ::
  "platform \<Rightarrow> MimiHeader \<Rightarrow> MimicTaskMem \<Rightarrow> u32 \<Rightarrow> mfile \<Rightarrow> MimicKernel \<Rightarrow> ram
   \<Rightarrow> (int \<times> ram \<times> MimicKernel) option" where
  "load_relocations cfg hdr tm base f k m =
     (let sections = (of_nat sizeof_MimiHeader + text_size hdr + rodata_size hdr + data_size hdr :: u32);
          symbytes = (symbol_count hdr * of_nat sizeof_MimiSymbol :: u32);
          al = (if symbol_count hdr \<noteq> 0 then mimic_kmalloc cfg symbytes k else (0, k));
          buf = fst al;
          k1 = snd al
      in
      if symbol_count hdr \<noteq> 0 \<and> buf = 0 then Some (MIMIC_ERR_NOMEM, m, k1)
      else
        let rd = mimic_fread
                   (mimic_fseek_set f (sections + reloc_count hdr * of_nat sizeof_MimiReloc))
                   (unat symbytes)
        in
        if symbol_count hdr \<noteq> 0 \<and> uint (align_size symbytes) < int (length (fst rd)) then None
        else if symbol_count hdr \<noteq> 0 \<and> int (length (fst rd)) \<noteq> sint symbytes
        then Some (MIMIC_ERR_CORRUPT, m, mimic_kfree buf k1)
        else
          let symtab = (if symbol_count hdr \<noteq> 0 then Some (decode_symbols (fst rd)) else None);
              k2 = (if symtab \<noteq> None then mimic_kfree buf k1 else k1)
          in
          case process_relocs (unat (reloc_count hdr)) hdr symtab tm base
                 (mimic_fseek_set f sections) m of
            None \<Rightarrow> None
          | Some (e, m1) \<Rightarrow> Some (e, m1, k2))"

text \<open>\<open>mimic_load_binary\<close>. \<open>opened\<close> is what \<open>mimic_fopen(path, MIMIC_FILE_READ)\<close> gave: a
  negative error code or the open file. The result is the returned code, the task's
  TCB, the kernel state and RAM. \<open>None\<close> where \<open>load_sections\<close> or the relocation loop has
  none: the loader wrote outside the task's block or read past the symbol table.\<close>

definition mimic_load_binary ::
  "platform \<Rightarrow> int + mfile \<Rightarrow> MimicTCB \<Rightarrow> MimicKernel \<Rightarrow> ram
   \<Rightarrow> (int \<times> MimicTCB \<times> MimicKernel \<times> ram) option" where
  "mimic_load_binary cfg opened task k m =
     (case opened of
        Inl fd_err \<Rightarrow> Some (fd_err, task, k, m)
      | Inr f0 \<Rightarrow>
          let rd = mimic_fread f0 sizeof_MimiHeader in
          if length (fst rd) \<noteq> sizeof_MimiHeader then Some (MIMIC_ERR_CORRUPT, task, k, m)
          else
            let hdr = decode_header (fst rd);
                err = mimic_validate_header (rp2350 cfg) hdr
            in
            if err \<noteq> MIMIC_OK then Some (err, task, k, m)
            else
              let stack_size = (if stack_request hdr \<noteq> 0 then stack_request hdr else 4096);
                  heap_size = (if heap_request hdr \<noteq> 0 then heap_request hdr else 8192);
                  total0 = text_size hdr + rodata_size hdr + data_size hdr + bss_size hdr
                           + (stack_size + heap_size);
                  total_size = (total0 + 31) AND NOT 31;
                  al = mimic_umalloc cfg (tid task) total_size k;
                  base = fst al;
                  k1 = snd al
              in
              if base = 0 then Some (MIMIC_ERR_NOMEM, task, k1, m)
              else
                let tm = task_layout hdr base total_size stack_size heap_size;
                    task1 = task \<lparr> mem := tm \<rparr>
                in
                case load_sections hdr tm base (snd rd) m of
                  None \<Rightarrow> None
                | Some (Inl fm) \<Rightarrow>
                    Some (MIMIC_ERR_IO, task1, mimic_ufree (tid task1) base k1, snd fm)
                | Some (Inr fm) \<Rightarrow>
                    (case (if reloc_count hdr \<noteq> 0
                           then load_relocations cfg hdr tm base (fst fm) k1 (snd fm)
                           else Some (MIMIC_OK, snd fm, k1)) of
                       None \<Rightarrow> None
                     | Some (e, m2, k2) \<Rightarrow>
                         if e \<noteq> MIMIC_OK
                         then Some (e, task1, mimic_ufree (tid task1) base k2, m2)
                         else
                         Some (MIMIC_OK,
                               task1 \<lparr> entry := base + m_text_start tm + entry_offset hdr,
                                       sp := base + m_stack_top tm,
                                       tname := strncpy_field 15 (hname hdr) @ drop 15 (tname task1) \<rparr>,
                               k2 \<lparr> programs_loaded := programs_loaded k2 + 1 \<rparr>,
                               m2)))"

text \<open>\<open>mimic_task_load\<close>: the returned \<open>int\<close> is the task id or the loader's error.\<close>

definition mimic_task_load ::
  "platform \<Rightarrow> int + mfile \<Rightarrow> u8 \<Rightarrow> u64 \<Rightarrow> MimicKernel \<Rightarrow> ram
   \<Rightarrow> (int \<times> MimicKernel \<times> ram) option" where
  "mimic_task_load cfg opened prio now_us k m =
     (case task_alloc cfg k of
        (None, k1) \<Rightarrow> Some (MIMIC_ERR_NOMEM, k1, m)
      | (Some i, k1) \<Rightarrow>
          (case mimic_load_binary cfg opened (tasks k1 ! i) k1 m of
             None \<Rightarrow> None
           | Some (err, task1, k2, m2) \<Rightarrow>
               let k3 = k2 \<lparr> tasks := (tasks k2)[i := task1] \<rparr> in
               if err \<noteq> MIMIC_OK
               then Some (err, (set_task_state i TASK_STATE_FREE k3)
                                 \<lparr> task_count := task_count k3 - 1 \<rparr>, m2)
               else Some (sint (tid task1), task_make_ready i prio now_us k3, m2)))"

text \<open>The memory images of the packed records, as \<open>mimic_fwrite(fd, &x, sizeof(x))\<close>
  writes them: little-endian; the header's \<open>_pad0\<close> and \<open>_reserved\<close> are zero (the linker
  clears the header with \<open>memset\<close> first).\<close>

definition bytes_le32 :: "u32 \<Rightarrow> u8 list" where
  "bytes_le32 v = [ucast v, ucast (drop_bit 8 v), ucast (drop_bit 16 v), ucast (drop_bit 24 v)]"

definition bytes_le16 :: "u16 \<Rightarrow> u8 list" where
  "bytes_le16 v = [ucast v, ucast (drop_bit 8 v)]"

definition encode_header :: "MimiHeader \<Rightarrow> u8 list" where
  "encode_header h =
     bytes_le32 (magic h) @ [version h, flags h, arch h, 0] @ bytes_le32 (entry_offset h)
     @ bytes_le32 (text_size h) @ bytes_le32 (rodata_size h) @ bytes_le32 (data_size h)
     @ bytes_le32 (bss_size h) @ bytes_le32 (reloc_count h) @ bytes_le32 (symbol_count h)
     @ bytes_le32 (stack_request h) @ bytes_le32 (heap_request h)
     @ take 16 (hname h @ replicate 16 0) @ replicate 8 0"

definition encode_reloc :: "MimiReloc \<Rightarrow> u8 list" where
  "encode_reloc r =
     bytes_le32 (r_offset r) @ bytes_le16 (r_section r) @ [r_type r, r_pad r]
     @ bytes_le32 (r_symbol_idx r)"

definition encode_symbol :: "MimiSymbol \<Rightarrow> u8 list" where
  "encode_symbol sy =
     take 16 (s_name sy @ replicate 16 0) @ bytes_le32 (s_value sy)
     @ [s_section sy, s_type sy] @ bytes_le16 (s_pad sy)"

text \<open>The formula of the spec's section 4.6 for the two halfwords of a \<open>BL\<close>, written
  from the spec's words for comparison with \<open>thumb_call_halfwords\<close>: \<open>S\<close>, \<open>I1\<close>, \<open>I2\<close> are
  bits 24, 23, 22 of the offset, \<open>imm10\<close> its bits 12 to 21, \<open>imm11\<close> its bits 1 to 11,
  \<open>J1 = !I1 XOR S\<close>, \<open>J2 = !I2 XOR S\<close>.\<close>

definition bl_spec :: "u32 \<Rightarrow> u16 \<times> u16" where
  "bl_spec offset =
     (let S = bit offset 24;
          I1 = bit offset 23;
          I2 = bit offset 22;
          imm10 = take_bit 10 (drop_bit 12 offset);
          imm11 = take_bit 11 (drop_bit 1 offset);
          J1 = ((\<not> I1) \<noteq> S);
          J2 = ((\<not> I2) \<noteq> S)
      in (ucast (0xF000 OR push_bit 10 (of_bool S) OR imm10 :: u32),
          ucast (0xD000 OR push_bit 13 (of_bool J1) OR push_bit 11 (of_bool J2) OR imm11 :: u32)))"

text \<open>Scenario 5 of the spec: a binary whose text section holds a call site at offset
  \<open>0x100\<close> and the called symbol at offset \<open>0x200\<close>, with one \<open>THUMB_CALL\<close> relocation,
  loaded on \<open>cfg_rp2040\<close>, whose user heap starts at \<open>0x20000000\<close>.\<close>

definition bl_binary :: "u8 list" where
  "bl_binary =
     encode_header (hdr0 \<lparr> text_size := 0x204, reloc_count := 1, symbol_count := 1 \<rparr>)
     @ replicate 0x204 0
     @ encode_reloc \<lparr> r_offset = 0x100, r_section = 1, r_type = MIMI_RELOC_THUMB_CALL,
                      r_pad = 0, r_symbol_idx = 0 \<rparr>
     @ encode_symbol \<lparr> s_name = [0x66], s_value = 0x200, s_section = 1,
                       s_type = MIMI_SYM_GLOBAL, s_pad = 0 \<rparr>"

definition ram_zero :: ram where
  "ram_zero = (\<lambda>a. 0)"

text \<open>A binary with two malformed relocation records: the first names section 7, the
  second (in .text, at offset 4) names symbol 5 of a table of one. Its text is four
  Thumb instructions, 8 bytes: \<open>PUSH {r4-r7, lr}\<close>, \<open>MOV r0, #42\<close>, \<open>POP {r4-r7, pc}\<close>,
  \<open>NOP\<close>. On \<open>cfg_rp2040\<close> it is loaded at \<open>0x20000000\<close> into a block of 12320 bytes.\<close>

definition sym_main :: MimiSymbol where
  "sym_main = \<lparr> s_name = [0x6D, 0x61, 0x69, 0x6E], s_value = 0, s_section = 1,
                s_type = MIMI_SYM_GLOBAL, s_pad = 0 \<rparr>"

definition bad_section_reloc :: MimiReloc where
  "bad_section_reloc = \<lparr> r_offset = 0, r_section = 7, r_type = MIMI_RELOC_ABS32,
                          r_pad = 0, r_symbol_idx = 0 \<rparr>"

definition bad_symbol_reloc :: MimiReloc where
  "bad_symbol_reloc = \<lparr> r_offset = 4, r_section = 1, r_type = MIMI_RELOC_ABS32,
                         r_pad = 0, r_symbol_idx = 5 \<rparr>"

definition hdr_malformed :: MimiHeader where
  "hdr_malformed = hdr0 \<lparr> text_size := 8, reloc_count := 2, symbol_count := 1 \<rparr>"

definition text_malformed :: "u8 list" where
  "text_malformed = [0xF0, 0xB5, 0x2A, 0x20, 0xF0, 0xBD, 0x00, 0xBF]"

definition malformed_binary :: "u8 list" where
  "malformed_binary =
     encode_header hdr_malformed @ text_malformed
     @ encode_reloc bad_section_reloc @ encode_reloc bad_symbol_reloc
     @ encode_symbol sym_main"

definition tm_malformed :: MimicTaskMem where
  "tm_malformed = task_layout hdr_malformed 0x20000000 12320 4096 8192"

text \<open>RAM with the text of \<open>malformed_binary\<close> in place, as the relocation loop finds
  it.\<close>

definition ram_malformed :: ram where
  "ram_malformed = write_bytes ram_zero 0x20000000 text_malformed"

text \<open>The same binary with one relocation record only: in .text, naming symbol 9 of a
  table of one, at offset \<open>0x40000000\<close>. Its patch address is \<open>0x60000000\<close>.\<close>

definition wild_offset_reloc :: MimiReloc where
  "wild_offset_reloc = \<lparr> r_offset = 0x40000000, r_section = 1, r_type = MIMI_RELOC_ABS32,
                          r_pad = 0, r_symbol_idx = 9 \<rparr>"

definition hdr_wild :: MimiHeader where
  "hdr_wild = hdr0 \<lparr> text_size := 8, reloc_count := 1, symbol_count := 1 \<rparr>"

definition wild_binary :: "u8 list" where
  "wild_binary =
     encode_header hdr_wild @ text_malformed @ encode_reloc wild_offset_reloc
     @ encode_symbol sym_main"

text \<open>The records the relocation loop will read: \<open>n\<close> records of 12 bytes from the file's
  position on.\<close>

definition file_relocs :: "mfile \<Rightarrow> nat \<Rightarrow> MimiReloc list" where
  "file_relocs f n =
     map (\<lambda>i. decode_reloc (take sizeof_MimiReloc (drop (f_pos f + sizeof_MimiReloc * i) (f_data f))))
         [0 ..< n]"

text \<open>A record is either skipped for its section, or its store has a meaning.\<close>

definition reloc_in_block :: "MimicTaskMem \<Rightarrow> u32 \<Rightarrow> MimiReloc \<Rightarrow> bool" where
  "reloc_in_block tm base r =
     (case reloc_patch_addr tm base r of
        None \<Rightarrow> True
      | Some patch_addr \<Rightarrow> reloc_store_defined tm base (r_type r) patch_addr)"

text \<open>The table read into the kernel buffer holds at least \<open>symbol_count\<close> entries. It
  does whenever \<open>symbol_count * 24\<close> has not wrapped, since the loader insists on having
  read that many bytes.\<close>

definition symtab_covers :: "MimiHeader \<Rightarrow> MimiSymbol list option \<Rightarrow> bool" where
  "symtab_covers hdr symtab =
     (case symtab of None \<Rightarrow> True | Some syms \<Rightarrow> unat (symbol_count hdr) \<le> length syms)"

section \<open>FAT32 volume and file handles (mimic_fat32.c)\<close>

abbreviation (input) SD_TYPE_SDHC :: u8 where "SD_TYPE_SDHC \<equiv> 4"
abbreviation (input) FAT32_EOC :: u32 where "FAT32_EOC \<equiv> 0x0FFFFFF8"
abbreviation (input) FAT32_FREE :: u32 where "FAT32_FREE \<equiv> 0"
abbreviation (input) MIMIC_MAX_FILES :: nat where "MIMIC_MAX_FILES \<equiv> 8"
abbreviation (input) MIMIC_FILE_READ :: u8 where "MIMIC_FILE_READ \<equiv> 0x01"
abbreviation (input) MIMIC_FILE_WRITE :: u8 where "MIMIC_FILE_WRITE \<equiv> 0x02"

text \<open>\<open>MimicVolume\<close>; \<open>sector_buf\<close> is the 512-byte cache buffer.\<close>

record MimicVolume =
  card_type :: u8
  initialized :: bool
  sectors_per_cluster :: u32
  bytes_per_cluster :: u32
  fat_start_sector :: u32
  fat_sectors :: u32
  root_cluster :: u32
  data_start_sector :: u32
  total_clusters :: u32
  cached_sector :: u32
  sector_buf :: "u8 list"
  cache_dirty :: bool

text \<open>\<open>MimicFile\<close>; \<open>is_open\<close> and \<open>fpath\<close> are the C fields \<open>open\<close> and \<open>path\<close>.\<close>

record MimicFile =
  is_open :: bool
  is_dir :: bool
  mode :: u8
  dir_cluster :: u32
  dir_entry_idx :: u32
  first_cluster :: u32
  current_cluster :: u32
  cluster_offset :: u32
  file_size :: u32
  position :: u32
  fpath :: "u8 list"

text \<open>The card behind the SPI commands: 512-byte blocks by number, and whether the card
  answers (a card that does not makes every read and write fail with \<open>MIMIC_ERR_IO\<close>).
  A card that is not SDHC is addressed in bytes, \<open>sector * 512\<close> on 32 bits.\<close>

record sd_card =
  sd_blocks :: "u32 \<Rightarrow> u8 list"
  sd_responds :: bool

text \<open>The file layer's static state: \<open>vol\<close>, \<open>files[MIMIC_MAX_FILES]\<close> and the card.\<close>

record fs_state =
  vol :: MimicVolume
  files :: "MimicFile list"
  sd :: sd_card

definition sd_block_of :: "MimicVolume \<Rightarrow> u32 \<Rightarrow> u32" where
  "sd_block_of v sector = (if card_type v = SD_TYPE_SDHC then sector else (sector * 512) div 512)"

definition mimic_sd_read_sector :: "fs_state \<Rightarrow> u32 \<Rightarrow> int \<times> fs_state" where
  "mimic_sd_read_sector s sector =
     (if \<not> initialized (vol s) then (MIMIC_ERR_IO, s)
      else if \<not> sd_responds (sd s) then (MIMIC_ERR_IO, s)
      else (MIMIC_OK,
            s \<lparr> vol := (vol s) \<lparr> sector_buf := sd_blocks (sd s) (sd_block_of (vol s) sector) \<rparr> \<rparr>))"

definition mimic_sd_write_sector :: "fs_state \<Rightarrow> u32 \<Rightarrow> u8 list \<Rightarrow> int \<times> fs_state" where
  "mimic_sd_write_sector s sector buf =
     (if \<not> initialized (vol s) then (MIMIC_ERR_IO, s)
      else if \<not> sd_responds (sd s) then (MIMIC_ERR_IO, s)
      else (MIMIC_OK,
            s \<lparr> sd := (sd s) \<lparr> sd_blocks := (sd_blocks (sd s)) (sd_block_of (vol s) sector := buf) \<rparr> \<rparr>))"

definition fat32_flush_cache :: "fs_state \<Rightarrow> int \<times> fs_state" where
  "fat32_flush_cache s =
     (if cache_dirty (vol s) then
        (let w = mimic_sd_write_sector s (cached_sector (vol s)) (sector_buf (vol s)) in
         if fst w \<noteq> MIMIC_OK then w
         else (MIMIC_OK, (snd w) \<lparr> vol := (vol (snd w)) \<lparr> cache_dirty := False \<rparr> \<rparr>))
      else (MIMIC_OK, s))"

definition fat32_read_sector :: "fs_state \<Rightarrow> u32 \<Rightarrow> int \<times> fs_state" where
  "fat32_read_sector s sector =
     (if cached_sector (vol s) = sector then (MIMIC_OK, s)
      else
        let fl = fat32_flush_cache s in
        if fst fl \<noteq> MIMIC_OK then fl
        else
          let rd = mimic_sd_read_sector (snd fl) sector in
          if fst rd = MIMIC_OK
          then (MIMIC_OK, (snd rd) \<lparr> vol := (vol (snd rd)) \<lparr> cached_sector := sector \<rparr> \<rparr>)
          else rd)"

definition fat32_cache_dirty :: "fs_state \<Rightarrow> fs_state" where
  "fat32_cache_dirty s = s \<lparr> vol := (vol s) \<lparr> cache_dirty := True \<rparr> \<rparr>"

text \<open>A 32-bit store into the cache buffer.\<close>

definition put_le32 :: "u8 list \<Rightarrow> nat \<Rightarrow> u32 \<Rightarrow> u8 list" where
  "put_le32 buf i v = buf[i := ucast v, i + 1 := ucast (drop_bit 8 v),
                          i + 2 := ucast (drop_bit 16 v), i + 3 := ucast (drop_bit 24 v)]"

definition fat32_get_fat_entry :: "fs_state \<Rightarrow> u32 \<Rightarrow> u32 \<times> fs_state" where
  "fat32_get_fat_entry s cluster =
     (let fat_offset = cluster * 4;
          fat_sector = fat_start_sector (vol s) + fat_offset div 512;
          entry_offset = unat (fat_offset mod 512);
          rd = fat32_read_sector s fat_sector
      in if fst rd \<noteq> MIMIC_OK then (0xFFFFFFFF, snd rd)
         else (le32 (sector_buf (vol (snd rd))) entry_offset AND 0x0FFFFFFF, snd rd))"

definition fat32_set_fat_entry :: "fs_state \<Rightarrow> u32 \<Rightarrow> u32 \<Rightarrow> int \<times> fs_state" where
  "fat32_set_fat_entry s cluster v =
     (let fat_offset = cluster * 4;
          fat_sector = fat_start_sector (vol s) + fat_offset div 512;
          entry_offset = unat (fat_offset mod 512);
          rd = fat32_read_sector s fat_sector
      in if fst rd \<noteq> MIMIC_OK then rd
         else
           let s1 = snd rd;
               buf = sector_buf (vol s1);
               nv = (v AND 0x0FFFFFFF) OR (le32 buf entry_offset AND 0xF0000000)
           in fat32_flush_cache
                (fat32_cache_dirty (s1 \<lparr> vol := (vol s1) \<lparr> sector_buf := put_le32 buf entry_offset nv \<rparr> \<rparr>)))"

definition fat32_cluster_to_sector :: "fs_state \<Rightarrow> u32 \<Rightarrow> u32" where
  "fat32_cluster_to_sector s cluster =
     data_start_sector (vol s) + (cluster - 2) * sectors_per_cluster (vol s)"

text \<open>\<open>fat32_alloc_cluster\<close>: the loop over \<open>cluster = 2 .. total_clusters + 1\<close>, \<open>n\<close>
  clusters to go; 0 when none is free.\<close>

fun alloc_cluster_scan :: "nat \<Rightarrow> u32 \<Rightarrow> fs_state \<Rightarrow> u32 \<times> fs_state" where
  "alloc_cluster_scan 0 cluster s = (0, s)"
| "alloc_cluster_scan (Suc n) cluster s =
     (let g = fat32_get_fat_entry s cluster in
      if fst g = FAT32_FREE
      then (cluster, snd (fat32_set_fat_entry (snd g) cluster FAT32_EOC))
      else alloc_cluster_scan n (cluster + 1) (snd g))"

definition fat32_alloc_cluster :: "fs_state \<Rightarrow> u32 \<times> fs_state" where
  "fat32_alloc_cluster s =
     alloc_cluster_scan (unat (total_clusters (vol s) + 2) - 2) 2 s"

text \<open>The handle \<open>mimic_fopen\<close> sets up once the path has resolved to a directory entry
  that is not a directory: the slot is cleared with \<open>memset\<close>, then \<open>open\<close>, \<open>mode\<close>, the
  clusters, the size, the position and the path are assigned from the entry's
  \<open>fst_clus_hi\<close>, \<open>fst_clus_lo\<close> and \<open>file_size\<close>. \<open>dir_cluster\<close> and \<open>dir_entry_idx\<close> are
  not assigned and stay 0.\<close>

definition fopen_handle :: "u16 \<Rightarrow> u16 \<Rightarrow> u32 \<Rightarrow> u8 \<Rightarrow> u8 list \<Rightarrow> MimicFile" where
  "fopen_handle clus_hi clus_lo fsize md p =
     (let fc = push_bit 16 (ucast clus_hi) OR ucast clus_lo
      in \<lparr> is_open = True, is_dir = False, mode = md, dir_cluster = 0, dir_entry_idx = 0,
           first_cluster = fc, current_cluster = fc, cluster_offset = 0, file_size = fsize,
           position = 0, fpath = take 255 (c_str p) \<rparr>)"

definition set_file :: "nat \<Rightarrow> MimicFile \<Rightarrow> fs_state \<Rightarrow> fs_state" where
  "set_file fd f s = s \<lparr> files := (files s)[fd := f] \<rparr>"

text \<open>\<open>mimic_fclose\<close>.\<close>

definition mimic_fclose :: "fs_state \<Rightarrow> int \<Rightarrow> int \<times> fs_state" where
  "mimic_fclose s fd =
     (if fd < 0 \<or> int MIMIC_MAX_FILES \<le> fd then (MIMIC_ERR_INVAL, s)
      else if \<not> is_open (files s ! nat fd) then (MIMIC_ERR_INVAL, s)
      else
        let s1 = snd (fat32_flush_cache s)
        in (MIMIC_OK, set_file (nat fd) ((files s1 ! nat fd) \<lparr> is_open := False \<rparr>) s1))"

text \<open>One round of the loop of \<open>mimic_fwrite\<close>, for the handle \<open>files[fd]\<close>. \<open>rest\<close>
  holds the bytes still to write (not empty), \<open>written\<close> their count so far. \<open>Inl\<close>: the
  function returns from inside the loop, with that value; \<open>Inr (n, s)\<close>: \<open>n\<close> bytes went
  into the cache buffer and the loop goes on. The copy writes into \<open>sector_buf\<close> also
  when the sector was not read first (a full sector at offset 0): \<open>cached_sector\<close> then
  still names the sector cached before.\<close>

definition fwrite_chunk :: "MimicFile \<Rightarrow> u8 list \<Rightarrow> nat" where
  "fwrite_chunk f rest = min (length rest) (512 - unat (cluster_offset f mod 512))"

text \<open>The first part of the round: allocate a cluster if the handle has none.\<close>

definition fwrite_ensure_cluster :: "nat \<Rightarrow> fs_state \<Rightarrow> bool \<times> fs_state" where
  "fwrite_ensure_cluster fd s =
     (let f0 = files s ! fd in
      if current_cluster f0 = 0 \<or> FAT32_EOC \<le> current_cluster f0 then
        (let ac = fat32_alloc_cluster s in
         if fst ac = 0 then (False, snd ac)
         else (True,
               set_file fd (f0 \<lparr> first_cluster := (if first_cluster f0 = 0 then fst ac
                                                      else first_cluster f0),
                                   current_cluster := fst ac, cluster_offset := 0 \<rparr>) (snd ac)))
      else (True, s))"

text \<open>The second part: read the sector for a partial write, copy, update the handle.\<close>

definition fwrite_copy :: "nat \<Rightarrow> u8 list \<Rightarrow> fs_state \<Rightarrow> bool \<times> fs_state" where
  "fwrite_copy fd rest s1 =
     (let f1 = files s1 ! fd;
          sector_in_cluster = cluster_offset f1 div 512;
          offset_in_sector = unat (cluster_offset f1 mod 512);
          sector = fat32_cluster_to_sector s1 (current_cluster f1) + sector_in_cluster;
          rd = (if offset_in_sector \<noteq> 0 \<or> length rest < 512
                then fat32_read_sector s1 sector else (MIMIC_OK, s1))
      in
      if fst rd \<noteq> MIMIC_OK then (False, snd rd)
      else
        let s2 = snd rd;
            n = fwrite_chunk f1 rest;
            buf = take offset_in_sector (sector_buf (vol s2)) @ take n rest
                  @ drop (offset_in_sector + n) (sector_buf (vol s2));
            s3 = fat32_cache_dirty (s2 \<lparr> vol := (vol s2) \<lparr> sector_buf := buf \<rparr> \<rparr>);
            pos = position f1 + of_nat n;
            f2 = f1 \<lparr> position := pos, cluster_offset := cluster_offset f1 + of_nat n,
                      file_size := (if file_size f1 < pos then pos else file_size f1) \<rparr>
        in (True, set_file fd f2 s3))"

text \<open>The third part: step to the next cluster at a cluster boundary.\<close>

definition fwrite_next_cluster :: "nat \<Rightarrow> fs_state \<Rightarrow> bool \<times> fs_state" where
  "fwrite_next_cluster fd s4 =
     (let f2 = files s4 ! fd in
      if bytes_per_cluster (vol s4) \<le> cluster_offset f2 then
        (let g = fat32_get_fat_entry s4 (current_cluster f2) in
         if FAT32_EOC \<le> fst g then
           (let ac = fat32_alloc_cluster (snd g) in
            if fst ac = 0 then (False, snd (fat32_flush_cache (snd ac)))
            else
              let s5 = snd (fat32_set_fat_entry (snd ac) (current_cluster f2) (fst ac))
              in (True, set_file fd (f2 \<lparr> current_cluster := fst ac, cluster_offset := 0 \<rparr>) s5))
         else (True, set_file fd (f2 \<lparr> current_cluster := fst g, cluster_offset := 0 \<rparr>) (snd g)))
      else (True, s4))"

definition fwrite_step ::
  "nat \<Rightarrow> u8 list \<Rightarrow> nat \<Rightarrow> fs_state \<Rightarrow> (int \<times> fs_state) + (nat \<times> fs_state)" where
  "fwrite_step fd rest written s =
     (let e = fwrite_ensure_cluster fd s in
      if \<not> fst e then Inl ((if 0 < written then int written else MIMIC_ERR_NOMEM), snd e)
      else
        let n = fwrite_chunk (files (snd e) ! fd) rest;
            c = fwrite_copy fd rest (snd e)
        in
        if \<not> fst c then Inl ((if 0 < written then int written else MIMIC_ERR_IO), snd c)
        else
          let x = fwrite_next_cluster fd (snd c) in
          if \<not> fst x then Inl (int (written + n), snd x)
          else Inr (n, snd x))"

lemma fwrite_chunk_pos: "rest \<noteq> [] \<Longrightarrow> 0 < fwrite_chunk f rest"
proof -
  have "unat (cluster_offset f mod 512) < 512" by (simp add: unat_mod)
  then show "rest \<noteq> [] \<Longrightarrow> 0 < fwrite_chunk f rest" by (simp add: fwrite_chunk_def)
qed

lemma fwrite_step_progress:
  "rest \<noteq> [] \<Longrightarrow> fwrite_step fd rest written s = Inr (n, s') \<Longrightarrow> 0 < n"
  unfolding fwrite_step_def Let_def
  by (auto split: if_splits simp: fwrite_chunk_pos)

text \<open>The loop \<open>while (bytes_written < size)\<close> and what follows it.\<close>

function fwrite_loop :: "nat \<Rightarrow> u8 list \<Rightarrow> nat \<Rightarrow> fs_state \<Rightarrow> int \<times> fs_state" where
  "fwrite_loop fd rest written s =
     (if rest = [] then (int written, snd (fat32_flush_cache s))
      else case fwrite_step fd rest written s of
             Inl r \<Rightarrow> r
           | Inr ns \<Rightarrow> fwrite_loop fd (drop (fst ns) rest) (written + fst ns) (snd ns))"
  by pat_completeness auto
termination
proof (relation "measure (\<lambda>(fd, rest, written, s). length rest)")
  show "wf (measure (\<lambda>(fd, rest, written, s). length rest))" by simp
next
  fix fd :: nat and rest :: "u8 list" and written :: nat and s :: fs_state and ns
  assume ne: "rest \<noteq> []" and st: "fwrite_step fd rest written s = Inr ns"
  from st have "fwrite_step fd rest written s = Inr (fst ns, snd ns)" by simp
  from fwrite_step_progress [OF ne this] have "0 < fst ns" .
  then show "((fd, drop (fst ns) rest, written + fst ns, snd ns), fd, rest, written, s)
             \<in> measure (\<lambda>(fd, rest, written, s). length rest)"
    using ne by simp
qed

text \<open>\<open>mimic_fwrite\<close>.\<close>

definition mimic_fwrite :: "fs_state \<Rightarrow> int \<Rightarrow> u8 list \<Rightarrow> int \<times> fs_state" where
  "mimic_fwrite s fd bytes =
     (if fd < 0 \<or> int MIMIC_MAX_FILES \<le> fd then (MIMIC_ERR_INVAL, s)
      else if \<not> is_open (files s ! nat fd) then (MIMIC_ERR_INVAL, s)
      else if mode (files s ! nat fd) AND MIMIC_FILE_WRITE = 0 then (MIMIC_ERR_PERM, s)
      else fwrite_loop (nat fd) bytes 0 s)"

text \<open>The 32-byte directory entry \<open>idx\<close> of a directory sector: \<open>fst_clus_hi\<close> at byte 20,
  \<open>fst_clus_lo\<close> at byte 26, \<open>file_size\<close> at byte 28.\<close>

definition dirent_fst_clus_hi :: "u8 list \<Rightarrow> nat \<Rightarrow> u16" where
  "dirent_fst_clus_hi sec idx = le16 sec (32 * idx + 20)"

definition dirent_fst_clus_lo :: "u8 list \<Rightarrow> nat \<Rightarrow> u16" where
  "dirent_fst_clus_lo sec idx = le16 sec (32 * idx + 26)"

definition dirent_file_size :: "u8 list \<Rightarrow> nat \<Rightarrow> u32" where
  "dirent_file_size sec idx = le32 sec (32 * idx + 28)"

text \<open>Scenario 3 of the spec on a small SDHC volume: one sector per cluster, the FAT in
  sector 32, the data area from sector 34, the root directory in cluster 2 (sector 34).
  The root directory holds one entry, \<open>HELLO.TXT\<close>, an empty file with no cluster yet
  (opening a path that does not exist returns \<open>MIMIC_ERR_NOSYS\<close>). The FAT marks
  clusters 0 to 2 as used and the rest as free. \<open>fs_hello\<close> is the state after
  \<open>mimic_fopen("/hello.txt", MIMIC_FILE_WRITE)\<close> has returned handle 0.\<close>

definition hello_dirent :: "u8 list" where
  "hello_dirent = [0x48, 0x45, 0x4C, 0x4C, 0x4F, 0x20, 0x20, 0x20, 0x54, 0x58, 0x54, 0x20]
                  @ replicate 20 0"

definition hello_root_dir :: "u8 list" where
  "hello_root_dir = hello_dirent @ replicate 480 0"

definition hello_fat :: "u8 list" where
  "hello_fat = bytes_le32 0x0FFFFFF8 @ bytes_le32 0x0FFFFFFF @ bytes_le32 0x0FFFFFFF
               @ replicate 500 0"

definition hello_vol :: MimicVolume where
  "hello_vol = \<lparr> card_type = SD_TYPE_SDHC, initialized = True, sectors_per_cluster = 1,
     bytes_per_cluster = 512, fat_start_sector = 32, fat_sectors = 1, root_cluster = 2,
     data_start_sector = 34, total_clusters = 64, cached_sector = 34,
     sector_buf = hello_root_dir, cache_dirty = False \<rparr>"

definition file_zero :: MimicFile where
  "file_zero = \<lparr> is_open = False, is_dir = False, mode = 0, dir_cluster = 0,
     dir_entry_idx = 0, first_cluster = 0, current_cluster = 0, cluster_offset = 0,
     file_size = 0, position = 0, fpath = [] \<rparr>"

text \<open>The bytes of "/hello.txt" and of "hello" followed by a newline.\<close>

definition str_hello_path :: "u8 list" where
  "str_hello_path = [0x2F, 0x68, 0x65, 0x6C, 0x6C, 0x6F, 0x2E, 0x74, 0x78, 0x74]"

definition str_hello :: "u8 list" where
  "str_hello = [0x68, 0x65, 0x6C, 0x6C, 0x6F, 0x0A]"

definition fs_hello :: fs_state where
  "fs_hello = \<lparr> vol = hello_vol,
     files = (replicate MIMIC_MAX_FILES file_zero)
               [0 := fopen_handle (dirent_fst_clus_hi hello_root_dir 0)
                       (dirent_fst_clus_lo hello_root_dir 0)
                       (dirent_file_size hello_root_dir 0) MIMIC_FILE_WRITE str_hello_path],
     sd = \<lparr> sd_blocks = (\<lambda>b. replicate 512 0)(32 := hello_fat, 34 := hello_root_dir),
            sd_responds = True \<rparr> \<rparr>"

text \<open>Scenario 3: \<open>mimic_fwrite(0, "hello\n", 6)\<close> on that handle, then \<open>mimic_fclose(0)\<close>.\<close>

definition hello_written :: "int \<times> fs_state" where
  "hello_written = mimic_fwrite fs_hello 0 str_hello"

definition hello_closed :: "int \<times> fs_state" where
  "hello_closed = mimic_fclose (snd hello_written) 0"

section \<open>Code generator (mimic_codegen.c)\<close>

text \<open>The Thumb encoders the generator's prologue, epilogue and fix-up pass use. The C
  expressions are computed in \<open>int\<close> and returned as \<open>uint16_t\<close> (\<open>uint32_t\<close> for
  \<open>thumb_bl\<close>).\<close>

abbreviation (input) REG_R0 :: u8 where "REG_R0 \<equiv> 0"
abbreviation (input) REG_LR :: nat where "REG_LR \<equiv> 14"
abbreviation (input) REG_PC :: nat where "REG_PC \<equiv> 15"

definition thumb_mov_imm :: "u8 \<Rightarrow> u8 \<Rightarrow> u16" where
  "thumb_mov_imm rd imm8 = 0x2000 OR push_bit 8 (ucast (rd AND 7)) OR ucast imm8"

definition thumb_push :: "u16 \<Rightarrow> u16" where
  "thumb_push regmask =
     (let R = (if regmask AND push_bit REG_LR 1 \<noteq> 0 then 1 else 0)
      in 0xB400 OR push_bit 8 R OR (regmask AND 0xFF))"

definition thumb_pop :: "u16 \<Rightarrow> u16" where
  "thumb_pop regmask =
     (let P = (if regmask AND push_bit REG_PC 1 \<noteq> 0 then 1 else 0)
      in 0xBC00 OR push_bit 8 P OR (regmask AND 0xFF))"

definition thumb_add_sp_imm :: "u8 \<Rightarrow> u16" where
  "thumb_add_sp_imm imm7 = 0xB000 OR ucast (imm7 AND 0x7F)"

definition thumb_sub_sp_imm :: "u8 \<Rightarrow> u16" where
  "thumb_sub_sp_imm imm7 = 0xB080 OR ucast (imm7 AND 0x7F)"

definition thumb_b :: "u16 \<Rightarrow> u16" where
  "thumb_b offset = 0xE000 OR (signed_drop_bit 1 offset AND 0x7FF)"

definition thumb_bl :: "u32 \<Rightarrow> u32" where
  "thumb_bl offset0 =
     (let offset = signed_drop_bit 1 offset0;
          s = signed_drop_bit 24 offset AND 1;
          i1 = signed_drop_bit 23 offset AND 1;
          i2 = signed_drop_bit 22 offset AND 1;
          imm10 = signed_drop_bit 11 offset AND 0x3FF;
          imm11 = offset AND 0x7FF;
          j1 = (NOT i1 XOR s) AND 1;
          j2 = (NOT i2 XOR s) AND 1;
          hi = (ucast (0xF000 OR push_bit 10 s OR imm10) :: u16);
          lo = (ucast (0xD000 OR push_bit 13 j1 OR push_bit 11 j2 OR imm11) :: u16)
      in push_bit 16 (ucast hi) OR ucast lo)"

text \<open>\<open>CodeGenState\<close>. The buffers are the bytes and records emitted so far, so
  \<open>code_size\<close>, \<open>data_size\<close>, \<open>reloc_count\<close>, \<open>sym_count\<close>, \<open>label_count\<close> and
  \<open>branch_count\<close> are the lists' lengths; a pending branch is \<open>(code_offset, label_id,
  type)\<close>. \<open>local_size\<close> and \<open>stack_offset\<close> are \<open>int32_t\<close>, read with \<open>sint\<close>.\<close>

record CodeGenState =
  cg_code :: "u8 list"
  cg_code_cap :: nat
  cg_data :: "u8 list"
  cg_relocs :: "MimiReloc list"
  cg_symbols :: "MimiSymbol list"
  cg_reg_used :: u8
  cg_stack_offset :: u32
  cg_local_size :: u32
  cg_frame_size :: u32
  cg_labels :: "u32 list"
  cg_branches :: "(u32 \<times> u32 \<times> u8) list"
  cg_func_start :: u32

definition cg_emit16 :: "CodeGenState \<Rightarrow> u16 \<Rightarrow> CodeGenState" where
  "cg_emit16 cg instr =
     (if cg_code_cap cg < length (cg_code cg) + 2 then cg
      else cg \<lparr> cg_code := cg_code cg @ [ucast (instr AND 0xFF), ucast (drop_bit 8 instr AND 0xFF)] \<rparr>)"

text \<open>The two loops \<open>while (words > 127) { emit(enc(127)); words -= 127; } if (words > 0)
  emit(enc(words));\<close> of the prologue and the epilogue.\<close>

function emit_sp_chunks :: "(u8 \<Rightarrow> u16) \<Rightarrow> int \<Rightarrow> CodeGenState \<Rightarrow> CodeGenState" where
  "emit_sp_chunks enc words cg =
     (if 127 < words then emit_sp_chunks enc (words - 127) (cg_emit16 cg (enc 127))
      else if 0 < words then cg_emit16 cg (enc (word_of_int words))
      else cg)"
  by pat_completeness auto
termination
  by (relation "measure (\<lambda>(enc, words, cg). nat words)") auto

definition cg_function_prologue :: "CodeGenState \<Rightarrow> u32 \<Rightarrow> CodeGenState" where
  "cg_function_prologue cg locals_size =
     (let cg1 = cg \<lparr> cg_func_start := of_nat (length (cg_code cg)),
                      cg_local_size := (locals_size + 3) AND NOT 3 \<rparr>;
          cg2 = cg_emit16 cg1 (thumb_push (push_bit REG_LR 1 OR 0xF0));
          cg3 = (if 0 < sint (cg_local_size cg2)
                 then emit_sp_chunks thumb_sub_sp_imm (sint (cg_local_size cg2) div 4) cg2
                 else cg2)
      in cg3 \<lparr> cg_stack_offset := cg_local_size cg3 \<rparr>)"

definition cg_function_epilogue :: "CodeGenState \<Rightarrow> CodeGenState" where
  "cg_function_epilogue cg =
     (let cg1 = (if 0 < sint (cg_local_size cg)
                 then emit_sp_chunks thumb_add_sp_imm (sint (cg_local_size cg) div 4) cg
                 else cg)
      in cg_emit16 cg1 (thumb_pop (push_bit REG_PC 1 OR 0xF0)))"

text \<open>\<open>cg_fixup_branches\<close>: one step per pending branch. A patch writes into the code
  buffer at the branch's offset; the model patches the emitted bytes (a store past
  them lands in the unused part of the buffer, which is never written out).\<close>

definition fixup_branch :: "u32 \<times> u32 \<times> u8 \<Rightarrow> CodeGenState \<Rightarrow> CodeGenState" where
  "fixup_branch br cg =
     (let offset = fst br; label = fst (snd br); ty = snd (snd br) in
      if length (cg_labels cg) \<le> unat label \<or> cg_labels cg ! unat label = 0xFFFFFFFF then cg
      else
        let target = cg_labels cg ! unat label;
            rel = target - (offset + 4);
            off = unat offset;
            c = cg_code cg
        in
        if ty = 2 then
          (let instr = thumb_bl rel
           in cg \<lparr> cg_code := c[off := ucast (drop_bit 16 instr AND 0xFF),
                                  off + 1 := ucast (drop_bit 24 instr AND 0xFF),
                                  off + 2 := ucast (instr AND 0xFF),
                                  off + 3 := ucast (drop_bit 8 instr AND 0xFF)] \<rparr>)
        else if ty = 0 then
          (let instr = thumb_b (ucast rel)
           in cg \<lparr> cg_code := c[off := ucast (instr AND 0xFF),
                                  off + 1 := ucast (drop_bit 8 instr AND 0xFF)] \<rparr>)
        else
          (let instr0 = (ucast (c ! off) OR push_bit 8 (ucast (c ! (off + 1))) :: u16);
               instr = (instr0 AND 0xFF00) OR (ucast (signed_drop_bit 1 rel) AND 0xFF)
           in cg \<lparr> cg_code := c[off := ucast (instr AND 0xFF),
                                  off + 1 := ucast (drop_bit 8 instr AND 0xFF)] \<rparr>))"

definition cg_fixup_branches :: "CodeGenState \<Rightarrow> CodeGenState" where
  "cg_fixup_branches cg = fold fixup_branch (cg_branches cg) cg"

text \<open>The part of \<open>CompilerState\<close> the code generator and the linker touch.\<close>

record CompilerState =
  cc_error_count :: u32
  cc_error_msg :: string
  cc_code_bytes :: u32
  cc_verbose :: bool

text \<open>The generator state after the six buffers are allocated (\<open>CodeGenState cg = {0}\<close>
  and the capacities).\<close>

definition cg_init :: CodeGenState where
  "cg_init = \<lparr> cg_code = [], cg_code_cap = 32 * 1024, cg_data = [], cg_relocs = [],
     cg_symbols = [], cg_reg_used = 0, cg_stack_offset = 0, cg_local_size = 0,
     cg_frame_size = 0, cg_labels = [], cg_branches = [], cg_func_start = 0 \<rparr>"

text \<open>The object file: the four-word header, the code, the data when not empty, the
  relocations, the symbols.\<close>

definition object_bytes :: "CodeGenState \<Rightarrow> u8 list" where
  "object_bytes cg =
     bytes_le32 (of_nat (length (cg_code cg))) @ bytes_le32 (of_nat (length (cg_data cg)))
     @ bytes_le32 (of_nat (length (cg_relocs cg))) @ bytes_le32 (of_nat (length (cg_symbols cg)))
     @ cg_code cg @ cg_data cg
     @ concat (map encode_reloc (cg_relocs cg)) @ concat (map encode_symbol (cg_symbols cg))"

text \<open>\<open>if (p) mimic_kfree(p)\<close> for each pointer of a list.\<close>

definition kfree_all :: "u32 list \<Rightarrow> MimicKernel \<Rightarrow> MimicKernel" where
  "kfree_all ps k = fold (\<lambda>p k1. if p \<noteq> 0 then mimic_kfree p k1 else k1) ps k"

text \<open>A sequence of \<open>mimic_kmalloc\<close> calls: the pointers, in order, and the kernel
  state.\<close>

fun kmalloc_all :: "platform \<Rightarrow> u32 list \<Rightarrow> MimicKernel \<Rightarrow> u32 list \<times> MimicKernel" where
  "kmalloc_all cfg [] k = ([], k)"
| "kmalloc_all cfg (sz # szs) k =
     (let a = mimic_kmalloc cfg sz k; r = kmalloc_all cfg szs (snd a)
      in (fst a # fst r, snd r))"

text \<open>\<open>mimic_cc_codegen\<close>. It does not read its input file: after the allocations it
  emits the fixed function "return 42" (the TODO stub of the source) and writes the
  object. \<open>fd\<close> is what \<open>mimic_fopen\<close> of the object path returned. The result is the
  returned code, the compiler state, the kernel state and the bytes written to the
  object file, if it was written.\<close>

definition mimic_cc_codegen ::
  "platform \<Rightarrow> int \<Rightarrow> CompilerState \<Rightarrow> MimicKernel
   \<Rightarrow> int \<times> CompilerState \<times> MimicKernel \<times> u8 list option" where
  "mimic_cc_codegen cfg fd cc k =
     (let al = kmalloc_all cfg [32 * 1024, 8 * 1024, 256 * 12, 128 * 24, 256 * 4, 256 * 12] k;
          ptrs = fst al;
          k1 = snd al
      in
      if list_ex (\<lambda>p. p = 0) ptrs then (MIMIC_ERR_NOMEM, cc, kfree_all ptrs k1, None)
      else
        let cg1 = cg_function_prologue cg_init 0;
            cg2 = cg_emit16 cg1 (thumb_mov_imm REG_R0 42);
            cg3 = cg_function_epilogue cg2;
            cg4 = cg_fixup_branches cg3
        in
        if fd < 0 then (fd, cc, kfree_all ptrs k1, None)
        else (MIMIC_OK, cc \<lparr> cc_code_bytes := of_nat (length (cg_code cg4)) \<rparr>,
              kfree_all ptrs k1, Some (object_bytes cg4)))"

section \<open>Linker and pipeline (mimic_linker.c)\<close>

text \<open>\<open>LinkerState\<close>. As for the code generator, the section buffers and tables are the
  lists of what was appended so far and the sizes and counts are their lengths
  (\<open>uint32_t\<close> in C: the capacity tests are made on 32-bit words).\<close>

record LinkerState =
  l_text :: "u8 list"
  l_text_cap :: u32
  l_rodata :: "u8 list"
  l_rodata_cap :: u32
  l_data :: "u8 list"
  l_data_cap :: u32
  l_bss_size :: u32
  l_relocs :: "MimiReloc list"
  l_reloc_cap :: u32
  l_symbols :: "MimiSymbol list"
  l_sym_cap :: u32
  l_entry_offset :: u32
  l_has_entry :: bool
  l_name :: "u8 list"
  l_error_msg :: string
  l_error_count :: u32

definition len32 :: "'a list \<Rightarrow> u32" where
  "len32 xs = of_nat (length xs)"

text \<open>\<open>strcmp(a, b) == 0\<close>. The arguments are the bytes in memory from each pointer to
  the end of the object it points into. \<open>None\<close>: the comparison passes the end of one of
  them before it has met a difference or a NUL, and C gives it no meaning.\<close>

fun strcmp_eq :: "u8 list \<Rightarrow> u8 list \<Rightarrow> bool option" where
  "strcmp_eq (x # xs) (y # ys) =
     (if x \<noteq> y then Some False else if x = 0 then Some True else strcmp_eq xs ys)"
| "strcmp_eq xs ys = None"

text \<open>The bytes from \<open>sym->name\<close> to the end of a \<open>MimiSymbol\<close>. The name field has 16 bytes
  and nothing keeps its last byte for a NUL: a name of 16 characters runs on into
  \<open>value\<close>, \<open>section\<close>, \<open>type\<close> and \<open>_pad\<close>, for \<open>strcmp\<close> and for \<open>%s\<close> alike.\<close>

definition symbol_name_bytes :: "MimiSymbol \<Rightarrow> u8 list" where
  "symbol_name_bytes sy = encode_symbol sy"

text \<open>The characters of the literal "main"; \<open>strcmp\<close> sees them followed by a NUL.\<close>

definition str_main :: "u8 list" where
  "str_main = [0x6D, 0x61, 0x69, 0x6E]"

definition bytes_to_string :: "u8 list \<Rightarrow> string" where
  "bytes_to_string bs = map (\<lambda>b. char_of (unat b)) (c_str bs)"

text \<open>\<open>linker_add_symbol\<close>: the index of the symbol in the merged table, or -1.
  \<open>symbol_scan\<close> is its search loop: the index of the first entry whose name compares
  equal, or \<open>sym_count\<close> when the loop runs to its end. In the branch that prints the
  name, \<open>strcmp\<close> has just found its NUL inside the symbol.\<close>

fun symbol_scan :: "MimiSymbol list \<Rightarrow> nat \<Rightarrow> MimiSymbol \<Rightarrow> nat option" where
  "symbol_scan [] i sy = Some i"
| "symbol_scan (e # es) i sy =
     (case strcmp_eq (symbol_name_bytes e) (symbol_name_bytes sy) of
        None \<Rightarrow> None
      | Some True \<Rightarrow> Some i
      | Some False \<Rightarrow> symbol_scan es (Suc i) sy)"

definition linker_add_symbol :: "LinkerState \<Rightarrow> MimiSymbol \<Rightarrow> (int \<times> LinkerState) option" where
  "linker_add_symbol lnk sy =
     (case symbol_scan (l_symbols lnk) 0 sy of
        None \<Rightarrow> None
      | Some i \<Rightarrow>
          if i < length (l_symbols lnk) then
            (let e = l_symbols lnk ! i in
             if s_type sy = MIMI_SYM_GLOBAL \<and> s_type e = MIMI_SYM_EXTERN
             then Some (int i, lnk \<lparr> l_symbols := (l_symbols lnk)[i := sy] \<rparr>)
             else if s_type sy = MIMI_SYM_GLOBAL \<and> s_type e = MIMI_SYM_GLOBAL
             then Some (- 1, lnk \<lparr> l_error_msg := ''Multiple definition of '' @ [CHR 0x27]
                                       @ bytes_to_string (symbol_name_bytes sy) @ [CHR 0x27],
                                     l_error_count := l_error_count lnk + 1 \<rparr>)
             else Some (int i, lnk))
          else if l_sym_cap lnk \<le> len32 (l_symbols lnk) then Some (- 1, lnk)
          else Some (int (length (l_symbols lnk)), lnk \<lparr> l_symbols := l_symbols lnk @ [sy] \<rparr>))"

text \<open>The relocation loop and the symbol loop of \<open>linker_load_object\<close>, \<open>n\<close> records to
  go. \<open>Inl\<close>: a record could not be read in full. \<open>None\<close> in the symbol loop: a \<open>strcmp\<close>
  without meaning.\<close>

fun load_object_relocs ::
  "nat \<Rightarrow> u32 \<Rightarrow> u32 \<Rightarrow> mfile \<Rightarrow> LinkerState \<Rightarrow> LinkerState + (mfile \<times> LinkerState)" where
  "load_object_relocs 0 text_offset data_offset f lnk = Inr (f, lnk)"
| "load_object_relocs (Suc n) text_offset data_offset f lnk =
     (let rd = mimic_fread f sizeof_MimiReloc in
      if length (fst rd) \<noteq> sizeof_MimiReloc then Inl lnk
      else
        let r0 = decode_reloc (fst rd);
            r1 = (if r_section r0 = 1 then r0 \<lparr> r_offset := r_offset r0 + text_offset \<rparr>
                  else if r_section r0 = 3 then r0 \<lparr> r_offset := r_offset r0 + data_offset \<rparr>
                  else r0);
            lnk1 = (if len32 (l_relocs lnk) < l_reloc_cap lnk
                    then lnk \<lparr> l_relocs := l_relocs lnk @ [r1] \<rparr> else lnk)
        in load_object_relocs n text_offset data_offset (snd rd) lnk1)"

fun load_object_symbols ::
  "nat \<Rightarrow> u32 \<Rightarrow> u32 \<Rightarrow> mfile \<Rightarrow> LinkerState
   \<Rightarrow> (LinkerState + (mfile \<times> LinkerState)) option" where
  "load_object_symbols 0 text_offset data_offset f lnk = Some (Inr (f, lnk))"
| "load_object_symbols (Suc n) text_offset data_offset f lnk =
     (let rd = mimic_fread f sizeof_MimiSymbol in
      if length (fst rd) \<noteq> sizeof_MimiSymbol then Some (Inl lnk)
      else
        let s0 = decode_symbol (fst rd);
            s1 = (if s_section s0 = 1 then s0 \<lparr> s_value := s_value s0 + text_offset \<rparr>
                  else if s_section s0 = 3 then s0 \<lparr> s_value := s_value s0 + data_offset \<rparr>
                  else s0)
        in
        case strcmp_eq (symbol_name_bytes s1) (str_main @ [0]) of
          None \<Rightarrow> None
        | Some is_main \<Rightarrow>
            let lnk1 = (if is_main \<and> s_type s1 = MIMI_SYM_GLOBAL
                        then lnk \<lparr> l_entry_offset := s_value s1, l_has_entry := True \<rparr>
                        else lnk)
            in
            case linker_add_symbol lnk1 s1 of
              None \<Rightarrow> None
            | Some r \<Rightarrow> load_object_symbols n text_offset data_offset (snd rd) (snd r))"

text \<open>\<open>linker_load_object\<close>; \<open>opened\<close> is what \<open>mimic_fopen(path, MIMIC_FILE_READ)\<close>
  gave. \<open>None\<close> where the symbol loop has none.\<close>

definition linker_load_object ::
  "LinkerState \<Rightarrow> int + mfile \<Rightarrow> (int \<times> LinkerState) option" where
  "linker_load_object lnk opened =
     (case opened of
        Inl fd_err \<Rightarrow> Some (fd_err, lnk)
      | Inr f0 \<Rightarrow>
          let rh = mimic_fread f0 16 in
          if length (fst rh) \<noteq> 16 then Some (MIMIC_ERR_CORRUPT, lnk)
          else
            let code_size = le32 (fst rh) 0;
                data_size = le32 (fst rh) 4;
                reloc_count = le32 (fst rh) 8;
                sym_count = le32 (fst rh) 12;
                text_offset = len32 (l_text lnk);
                data_offset = len32 (l_data lnk)
            in
            if code_size \<noteq> 0 \<and> l_text_cap lnk < len32 (l_text lnk) + code_size
            then Some (MIMIC_ERR_NOMEM, lnk)
            else
              let rc = (if code_size \<noteq> 0 then mimic_fread (snd rh) (unat code_size)
                        else ([], snd rh)) in
              if code_size \<noteq> 0 \<and> int (length (fst rc)) \<noteq> sint code_size
              then Some (MIMIC_ERR_IO, lnk)
              else
                let lnk1 = lnk \<lparr> l_text := l_text lnk @ fst rc \<rparr> in
                if data_size \<noteq> 0 \<and> l_data_cap lnk1 < len32 (l_data lnk1) + data_size
                then Some (MIMIC_ERR_NOMEM, lnk1)
                else
                  let rd = (if data_size \<noteq> 0 then mimic_fread (snd rc) (unat data_size)
                            else ([], snd rc)) in
                  if data_size \<noteq> 0 \<and> int (length (fst rd)) \<noteq> sint data_size
                  then Some (MIMIC_ERR_IO, lnk1)
                  else
                    let lnk2 = lnk1 \<lparr> l_data := l_data lnk1 @ fst rd \<rparr> in
                    case load_object_relocs (unat reloc_count) text_offset data_offset
                           (snd rd) lnk2 of
                      Inl lnk3 \<Rightarrow> Some (MIMIC_ERR_CORRUPT, lnk3)
                    | Inr fl \<Rightarrow>
                        (case load_object_symbols (unat sym_count) text_offset data_offset
                                (fst fl) (snd fl) of
                           None \<Rightarrow> None
                         | Some (Inl lnk4) \<Rightarrow> Some (MIMIC_ERR_CORRUPT, lnk4)
                         | Some (Inr fl2) \<Rightarrow> Some (MIMIC_OK, snd fl2)))"

text \<open>\<open>linker_process_relocations\<close>. The inner test \<open>sym->type != MIMI_SYM_SYSCALL\<close> sits
  under \<open>sym->type == MIMI_SYM_EXTERN\<close>, as in the source. Where the name is printed the
  symbol's \<open>section\<close> byte is 0, so \<open>%s\<close> ends inside the symbol.\<close>

definition process_reloc_check :: "MimiReloc \<Rightarrow> LinkerState \<Rightarrow> LinkerState" where
  "process_reloc_check r lnk =
     (if len32 (l_symbols lnk) \<le> r_symbol_idx r then
        lnk \<lparr> l_error_msg := ''Invalid symbol reference in relocation'',
              l_error_count := l_error_count lnk + 1 \<rparr>
      else
        let sy = l_symbols lnk ! unat (r_symbol_idx r) in
        if s_type sy = MIMI_SYM_EXTERN \<and> s_section sy = 0 \<and> s_type sy \<noteq> MIMI_SYM_SYSCALL
        then lnk \<lparr> l_error_msg := ''Unresolved symbol: ''
                                   @ bytes_to_string (symbol_name_bytes sy),
                   l_error_count := l_error_count lnk + 1 \<rparr>
        else lnk)"

definition linker_process_relocations :: "LinkerState \<Rightarrow> int \<times> LinkerState" where
  "linker_process_relocations lnk =
     (let lnk1 = fold process_reloc_check (l_relocs lnk) lnk
      in (if 0 < l_error_count lnk1 then MIMIC_ERR_NOENT else MIMIC_OK, lnk1))"

text \<open>\<open>linker_write_binary\<close>: the header the linker builds and the bytes of the output
  file. \<open>fd\<close> is what \<open>mimic_fopen\<close> of the output path returned.\<close>

definition linker_header :: "platform \<Rightarrow> LinkerState \<Rightarrow> MimiHeader" where
  "linker_header cfg lnk = \<lparr> magic = MIMI_MAGIC, version = MIMI_VERSION, flags = 0,
     arch = (if rp2350 cfg then MIMI_ARCH_CORTEX_M33 else MIMI_ARCH_CORTEX_M0P),
     entry_offset = l_entry_offset lnk, text_size = len32 (l_text lnk),
     rodata_size = len32 (l_rodata lnk), data_size = len32 (l_data lnk),
     bss_size = l_bss_size lnk, reloc_count = len32 (l_relocs lnk),
     symbol_count = len32 (l_symbols lnk), stack_request = 4096, heap_request = 8192,
     hname = strncpy_field 15 (l_name lnk) @ [0] \<rparr>"

definition linker_write_binary :: "platform \<Rightarrow> LinkerState \<Rightarrow> int \<Rightarrow> int \<times> u8 list option" where
  "linker_write_binary cfg lnk fd =
     (if fd < 0 then (fd, None)
      else (MIMIC_OK,
            Some (encode_header (linker_header cfg lnk) @ l_text lnk @ l_rodata lnk @ l_data lnk
                  @ concat (map encode_reloc (l_relocs lnk))
                  @ concat (map encode_symbol (l_symbols lnk)))))"

text \<open>The output name: the part of the path after the last \<open>/\<close>, cut to 15 bytes, then
  cut at its last \<open>.\<close>.\<close>

definition after_last :: "u8 \<Rightarrow> u8 list \<Rightarrow> u8 list" where
  "after_last c s = rev (takeWhile (\<lambda>x. x \<noteq> c) (rev s))"

definition before_last :: "u8 \<Rightarrow> u8 list \<Rightarrow> u8 list" where
  "before_last c s = (if c \<in> set s then rev (tl (dropWhile (\<lambda>x. x \<noteq> c) (rev s))) else s)"

definition output_name :: "u8 list \<Rightarrow> u8 list" where
  "output_name path = before_last 0x2E (take 15 (after_last 0x2F (c_str path)))"

definition lnk_init :: "u8 list \<Rightarrow> LinkerState" where
  "lnk_init path = \<lparr> l_text = [], l_text_cap = 64 * 1024, l_rodata = [],
     l_rodata_cap = 16 * 1024, l_data = [], l_data_cap = 16 * 1024, l_bss_size = 0,
     l_relocs = [], l_reloc_cap = 512, l_symbols = [], l_sym_cap = 256,
     l_entry_offset = 0, l_has_entry = False, l_name = output_name path,
     l_error_msg = [], l_error_count = 0 \<rparr>"

text \<open>The loop over the object files: it stops at the first one that fails to load.\<close>

fun load_objects ::
  "LinkerState \<Rightarrow> (int + mfile) list \<Rightarrow> (int \<times> LinkerState) option" where
  "load_objects lnk [] = Some (MIMIC_OK, lnk)"
| "load_objects lnk (ob # obs) =
     (case linker_load_object lnk ob of
        None \<Rightarrow> None
      | Some r \<Rightarrow> if fst r \<noteq> MIMIC_OK then Some r else load_objects (snd r) obs)"

text \<open>\<open>mimic_cc_link\<close>. \<open>objs\<close> are the results of opening the object files, \<open>fd_out\<close> that
  of opening the output. The result is the returned code, the compiler state, the
  kernel state and the bytes of the \<open>.mimi\<close> file, if one was written. \<open>None\<close> where
  loading the objects has none.\<close>

definition mimic_cc_link ::
  "platform \<Rightarrow> CompilerState \<Rightarrow> (int + mfile) list \<Rightarrow> u8 list \<Rightarrow> int \<Rightarrow> MimicKernel
   \<Rightarrow> (int \<times> CompilerState \<times> MimicKernel \<times> u8 list option) option" where
  "mimic_cc_link cfg cc objs out_path fd_out k =
     (let al = kmalloc_all cfg [64 * 1024, 16 * 1024, 16 * 1024, 512 * 12, 256 * 24] k;
          ptrs = fst al;
          k1 = snd al
      in
      if list_ex (\<lambda>p. p = 0) ptrs then Some (MIMIC_ERR_NOMEM, cc, kfree_all ptrs k1, None)
      else
        case load_objects (lnk_init out_path) objs of
          None \<Rightarrow> None
        | Some ld \<Rightarrow>
            let lnk = snd ld in
            if fst ld \<noteq> MIMIC_OK then Some (fst ld, cc, kfree_all ptrs k1, None)
            else if \<not> l_has_entry lnk then
              Some (MIMIC_ERR_NOENT,
                    cc \<lparr> cc_error_msg := ''No entry point found (missing '' @ [CHR 0x27]
                                          @ ''main'' @ [CHR 0x27] @ '')'',
                         cc_error_count := cc_error_count cc + 1 \<rparr>,
                    kfree_all ptrs k1, None)
            else
              let pr = linker_process_relocations lnk;
                  lnk1 = snd pr
              in
              if fst pr \<noteq> MIMIC_OK \<and> 0 < l_error_count lnk1 then
                Some (fst pr,
                      cc \<lparr> cc_error_msg := take 255 (l_error_msg lnk1),
                           cc_error_count := cc_error_count cc + l_error_count lnk1 \<rparr>,
                      kfree_all ptrs k1, None)
              else
                let wr = linker_write_binary cfg lnk1 fd_out
                in Some (fst wr, cc, kfree_all ptrs k1, snd wr))"

text \<open>What \<open>mimic_fopen(path, MIMIC_FILE_READ)\<close> finds in a file that held \<open>old\<close>, was
  opened for writing, written with \<open>new\<close> from its start and closed. \<open>mimic_fopen\<close> takes
  the size and the first cluster from the directory entry, and neither \<open>mimic_fwrite\<close>
  nor \<open>mimic_fclose\<close> updates the entry (\<open>MIMIC_FILE_TRUNC\<close> is not implemented either):
  the file is as long as it was and shows the new bytes over the old ones. A file that
  was empty had no cluster, the new bytes went to a cluster the entry does not name,
  and the file is still empty.\<close>

definition file_after_write :: "u8 list \<Rightarrow> u8 list \<Rightarrow> u8 list" where
  "file_after_write old new = take (length old) (new @ drop (length new) old)"

text \<open>\<open>mimic_cc_compile\<close>. Pass 1 and pass 2 are the lexer and the parser; the model takes
  them as functions from the compiler and kernel state to a result code and the new
  states, since pass 4 does not read what they wrote. \<open>fd_obj\<close> is the result of
  opening the object file \<open>temp.o\<close> for writing and \<open>obj_before\<close> what the file held
  then; the linker opens it again for reading and fails with \<open>reopen_err\<close> if that is
  negative, or else finds \<open>file_after_write obj_before\<close> of the bytes pass 4 wrote;
  \<open>fd_out\<close> is the result of opening the output. Device errors are outside the model.\<close>

definition mimic_cc_compile ::
  "platform
   \<Rightarrow> (CompilerState \<Rightarrow> MimicKernel \<Rightarrow> int \<times> CompilerState \<times> MimicKernel)
   \<Rightarrow> (CompilerState \<Rightarrow> MimicKernel \<Rightarrow> int \<times> CompilerState \<times> MimicKernel)
   \<Rightarrow> int \<Rightarrow> u8 list \<Rightarrow> int \<Rightarrow> u8 list \<Rightarrow> int \<Rightarrow> CompilerState \<Rightarrow> MimicKernel
   \<Rightarrow> (int \<times> CompilerState \<times> MimicKernel \<times> u8 list option) option" where
  "mimic_cc_compile cfg lex_pass parse_pass fd_obj obj_before reopen_err out_path fd_out cc k =
     (let cc0 = cc \<lparr> cc_verbose := True \<rparr>;
          lx = lex_pass cc0 k
      in
      if fst lx \<noteq> MIMIC_OK then Some (fst lx, fst (snd lx), snd (snd lx), None)
      else
        let ps = parse_pass (fst (snd lx)) (snd (snd lx)) in
        if fst ps \<noteq> MIMIC_OK then Some (fst ps, fst (snd ps), snd (snd ps), None)
        else
          let cgn = mimic_cc_codegen cfg fd_obj (fst (snd ps)) (snd (snd ps)) in
          if fst cgn \<noteq> MIMIC_OK
          then Some (fst cgn, fst (snd cgn), fst (snd (snd cgn)), None)
          else
            let obj = (case snd (snd (snd cgn)) of
                         None \<Rightarrow> Inl MIMIC_ERR_NOENT
                       | Some bs \<Rightarrow>
                           if reopen_err < 0 then Inl reopen_err
                           else Inr \<lparr> f_data = file_after_write obj_before bs, f_pos = 0 \<rparr>)
            in mimic_cc_link cfg (fst (snd cgn)) [obj] out_path fd_out (fst (snd (snd cgn))))"

text \<open>The object file the code generator writes whenever it succeeds, and the compiler
  state at the start of a compile.\<close>

definition stub_object :: "u8 list" where
  "stub_object = [6, 0, 0, 0, 0, 0, 0, 0, 0, 0, 0, 0, 0, 0, 0, 0,
                  0xF0, 0xB5, 0x2A, 0x20, 0xF0, 0xBD]"

definition cc_init :: CompilerState where
  "cc_init = \<lparr> cc_error_count = 0, cc_error_msg = [], cc_code_bytes = 0, cc_verbose = False \<rparr>"

text \<open>The bytes of the path "/mimic/bin/main.mimi".\<close>

definition out_path_main :: "u8 list" where
  "out_path_main = [0x2F, 0x6D, 0x69, 0x6D, 0x69, 0x63, 0x2F, 0x62, 0x69, 0x6E, 0x2F,
                    0x6D, 0x61, 0x69, 0x6E, 0x2E, 0x6D, 0x69, 0x6D, 0x69]"

text \<open>The kernel state \<open>mimic_cc_codegen\<close> leaves when it runs on the RP2040 kernel right
  after boot: its six buffers allocated and freed again.\<close>

definition k_after_codegen :: MimicKernel where
  "k_after_codegen =
     kfree_all [0x20030000, 0x20038000, 0x2003A000, 0x2003AC00, 0x2003B800, 0x2003BC00]
       (snd (kmalloc_all cfg_rp2040 [32 * 1024, 8 * 1024, 256 * 12, 128 * 24, 256 * 4, 256 * 12]
               k_boot))"

section \<open>Arena allocator: measures and invariants used in the results\<close>

definition sum_sizes :: "MimicMemBlock list \<Rightarrow> nat" where
  "sum_sizes bs = sum_list (map (\<lambda>b. unat (bsize b)) bs)"

definition free_sizes :: "MimicMemBlock list \<Rightarrow> nat" where
  "free_sizes bs = sum_sizes (filter free bs)"

definition umalloc_seq :: "platform \<Rightarrow> u32 \<Rightarrow> u32 list \<Rightarrow> MimicKernel \<Rightarrow> MimicKernel" where
  "umalloc_seq cfg tsk sizes k = fold (\<lambda>sz k1. snd (mimic_umalloc cfg tsk sz k1)) sizes k"

definition merge_inv :: "MimicMemBlock list \<Rightarrow> nat \<Rightarrow> MimicMemBlock list \<times> nat \<Rightarrow> bool" where
  "merge_inv bs0 i s \<longleftrightarrow>
     length (fst s) = length bs0 \<and> snd s \<le> i \<and> (0 < i \<longrightarrow> 0 < snd s)
     \<and> drop i (fst s) = drop i bs0
     \<and> free_sizes (take (snd s) (fst s)) = free_sizes (take i bs0)"

definition pool_inv :: "nat \<Rightarrow> u32 \<Rightarrow> MimicMemBlock list \<Rightarrow> bool" where
  "pool_inv cap tsk bs \<longleftrightarrow>
     bs \<noteq> [] \<and> sum_sizes bs = cap \<and> (\<forall>b\<in>set bs. \<not> free b \<longrightarrow> task_id b = tsk)"

section \<open>Header validation: results\<close>

text \<open>C3, as the spec states it, fails: a failing header does not always yield
  NOT_EXECUTABLE. A header whose magic is wrong is rejected with CORRUPT.\<close>

theorem validate_header_not_always_noexec:
  "mimic_validate_header False hdr_bad_magic \<noteq> MIMIC_OK
   \<and> mimic_validate_header False hdr_bad_magic \<noteq> MIMIC_ERR_NOEXEC
   \<and> mimic_validate_header False hdr_bad_magic = MIMIC_ERR_CORRUPT"
  by (simp add: mimic_validate_header_def hdr_bad_magic_def hdr0_def)

text \<open>C3, amended: the validator accepts a header exactly when magic, version,
  architecture, text size and entry offset are all right (so \<open>entry_offset = text_size\<close>
  is rejected); magic is decided first and version second, whatever the other fields
  hold; and the error is CORRUPT for a bad magic, INVAL for a bad version, an empty text
  section or an entry offset outside it, and NOEXEC only for an architecture mismatch.\<close>

theorem validate_header_accepts_iff:
  "(mimic_validate_header rp hdr = MIMIC_OK \<longleftrightarrow>
      magic hdr = MIMI_MAGIC \<and> version hdr = MIMI_VERSION \<and> arch_matches rp (arch hdr)
      \<and> 0 < text_size hdr \<and> entry_offset hdr < text_size hdr)
   \<and> (entry_offset hdr = text_size hdr \<longrightarrow> mimic_validate_header rp hdr \<noteq> MIMIC_OK)
   \<and> (magic hdr \<noteq> MIMI_MAGIC \<longrightarrow> mimic_validate_header rp hdr = MIMIC_ERR_CORRUPT)
   \<and> (magic hdr = MIMI_MAGIC \<and> version hdr \<noteq> MIMI_VERSION
        \<longrightarrow> mimic_validate_header rp hdr = MIMIC_ERR_INVAL)
   \<and> (magic hdr = MIMI_MAGIC \<and> version hdr = MIMI_VERSION \<and> \<not> arch_matches rp (arch hdr)
        \<longrightarrow> mimic_validate_header rp hdr = MIMIC_ERR_NOEXEC)
   \<and> (magic hdr = MIMI_MAGIC \<and> version hdr = MIMI_VERSION \<and> arch_matches rp (arch hdr)
        \<and> (text_size hdr = 0 \<or> text_size hdr \<le> entry_offset hdr)
        \<longrightarrow> mimic_validate_header rp hdr = MIMIC_ERR_INVAL)"
  by (auto simp: mimic_validate_header_def arch_matches_def word_greater_zero_iff)

theorem validate_header_accepts_iff_witness:
  "mimic_validate_header False hdr0 = MIMIC_OK
   \<and> mimic_validate_header False hdr_entry_at_end = MIMIC_ERR_INVAL
   \<and> mimic_validate_header False hdr_bad_magic = MIMIC_ERR_CORRUPT
   \<and> mimic_validate_header False hdr_bad_version = MIMIC_ERR_INVAL
   \<and> mimic_validate_header False hdr_bad_arch = MIMIC_ERR_NOEXEC"
  using validate_header_accepts_iff [of False hdr0]
    validate_header_accepts_iff [of False hdr_entry_at_end]
    validate_header_accepts_iff [of False hdr_bad_magic]
    validate_header_accepts_iff [of False hdr_bad_version]
    validate_header_accepts_iff [of False hdr_bad_arch]
  by (simp add: hdr0_def hdr_entry_at_end_def hdr_bad_magic_def hdr_bad_version_def
      hdr_bad_arch_def arch_matches_def)
section \<open>Arena allocator: results\<close>

lemma sum_sizes_simps [simp]:
  "sum_sizes [] = 0"
  "sum_sizes (b # bs) = unat (bsize b) + sum_sizes bs"
  "sum_sizes (xs @ ys) = sum_sizes xs + sum_sizes ys"
  by (simp_all add: sum_sizes_def)

lemma free_sizes_simps [simp]:
  "free_sizes [] = 0"
  "free_sizes (b # bs) = (if free b then unat (bsize b) else 0) + free_sizes bs"
  "free_sizes (xs @ ys) = free_sizes xs + free_sizes ys"
  by (simp_all add: free_sizes_def)

lemma sum_sizes_update:
  "i < length bs \<Longrightarrow> sum_sizes (bs[i := b]) + unat (bsize (bs ! i)) = sum_sizes bs + unat (bsize b)"
proof (induction bs arbitrary: i)
  case Nil
  then show ?case by simp
next
  case (Cons a bs)
  then show ?case by (cases i) auto
qed

lemma free_sizes_update_free:
  "i < length bs \<Longrightarrow> free (bs ! i) \<Longrightarrow> free b \<Longrightarrow>
   free_sizes (bs[i := b]) + unat (bsize (bs ! i)) = free_sizes bs + unat (bsize b)"
proof (induction bs arbitrary: i)
  case Nil
  then show ?case by simp
next
  case (Cons a bs)
  then show ?case by (cases i) auto
qed

lemma free_sizes_le_sum_sizes: "free_sizes bs \<le> sum_sizes bs"
  by (induction bs) auto

lemma sum_sizes_take_le: "sum_sizes (take i bs) \<le> sum_sizes bs"
proof -
  have "sum_sizes (take i bs @ drop i bs) = sum_sizes bs" by simp
  then show ?thesis unfolding sum_sizes_simps by linarith
qed

lemma free_sizes_all_free: "\<forall>b\<in>set bs. free b \<Longrightarrow> free_sizes bs = sum_sizes bs"
  by (induction bs) auto

lemma free_sizes_mset: "mset bs = mset bs' \<Longrightarrow> free_sizes bs = free_sizes bs'"
proof -
  assume h: "mset bs = mset bs'"
  have "\<And>xs. free_sizes xs = sum_mset (image_mset (\<lambda>b. unat (bsize b)) (filter_mset free (mset xs)))"
    by (simp add: free_sizes_def sum_sizes_def flip: mset_filter mset_map sum_mset_sum_list)
  then show ?thesis using h by simp
qed

subsection \<open>The bubble sort keeps the blocks\<close>

lemma swap_if_greater_mset:
  "Suc j < length bs \<Longrightarrow> mset (swap_if_greater j bs) = mset bs"
  by (simp add: swap_if_greater_def mset_swap)

lemma swap_if_greater_length [simp]: "length (swap_if_greater j bs) = length bs"
  by (simp add: swap_if_greater_def)

lemma bubble_pass_mset:
  "n < length bs \<Longrightarrow> mset (fold swap_if_greater [0 ..< n] bs) = mset bs
     \<and> length (fold swap_if_greater [0 ..< n] bs) = length bs"
proof (induction n)
  case 0
  then show ?case by simp
next
  case (Suc n)
  then show ?case by (simp add: swap_if_greater_mset)
qed

lemma bubble_outer_mset:
  "m < length bs \<Longrightarrow>
   mset (fold (\<lambda>i bs1. fold swap_if_greater [0 ..< length bs - i - 1] bs1) [0 ..< m] bs) = mset bs
   \<and> length (fold (\<lambda>i bs1. fold swap_if_greater [0 ..< length bs - i - 1] bs1) [0 ..< m] bs) = length bs"
proof (induction m)
  case 0
  then show ?case by simp
next
  case (Suc m)
  let ?r = "fold (\<lambda>i bs1. fold swap_if_greater [0 ..< length bs - i - 1] bs1) [0 ..< m] bs"
  from Suc have ih: "mset ?r = mset bs" "length ?r = length bs" by auto
  from Suc.prems have "length bs - m - 1 < length ?r" using ih by simp
  from bubble_pass_mset [OF this] ih show ?case by simp
qed

lemma bubble_sort_blocks_mset: "mset (bubble_sort_blocks bs) = mset bs"
proof (cases "bs = []")
  case True
  then show ?thesis by (simp add: bubble_sort_blocks_def)
next
  case False
  then have "length bs - 1 < length bs" by (cases bs) auto
  from bubble_outer_mset [of "length bs - 1" bs] this show ?thesis
    by (simp add: bubble_sort_blocks_def)
qed


subsection \<open>The merge loop keeps the free bytes\<close>

lemma free_block_le_free_sizes:
  "j < length xs \<Longrightarrow> free (xs ! j) \<Longrightarrow> unat (bsize (xs ! j)) \<le> free_sizes xs"
proof (induction xs arbitrary: j)
  case Nil
  then show ?case by simp
next
  case (Cons a xs)
  then show ?case by (cases j) (auto simp: trans_le_add2)
qed

lemma nth_of_drop_eq:
  assumes "drop i xs = drop i ys" "i < length xs" "length xs = length ys"
  shows "xs ! i = ys ! i"
  using assms by (metis hd_drop_conv_nth)

lemma drop_Suc_of_drop_eq:
  assumes "drop i xs = drop i ys"
  shows "drop (Suc i) xs = drop (Suc i) ys"
proof -
  have "drop (Suc i) xs = drop 1 (drop i xs)" by simp
  also have "\<dots> = drop 1 (drop i ys)" using assms by simp
  finally show ?thesis by simp
qed

lemma merge_step_inv:
  assumes tot: "sum_sizes bs0 < 2 ^ 32" and i: "i < length bs0" and inv: "merge_inv bs0 i s"
  shows "merge_inv bs0 (Suc i) (merge_step i s)"
proof -
  obtain bs w where s: "s = (bs, w)" by (cases s)
  from inv s have len: "length bs = length bs0" and wi: "w \<le> i" and wpos: "0 < i \<longrightarrow> 0 < w"
    and dr: "drop i bs = drop i bs0"
    and fs: "free_sizes (take w bs) = free_sizes (take i bs0)"
    by (simp_all add: merge_inv_def)
  have nth_i: "bs ! i = bs0 ! i" using nth_of_drop_eq [OF dr] i len by simp
  have dr': "drop (Suc i) bs = drop (Suc i) bs0" by (rule drop_Suc_of_drop_eq [OF dr])
  have tk0: "take (Suc i) bs0 = take i bs0 @ [bs0 ! i]" using i by (simp add: take_Suc_conv_app_nth)
  let ?c = "0 < i \<and> free (bs ! (w - 1)) \<and> free (bs ! i)
         \<and> addr (bs ! (w - 1)) + bsize (bs ! (w - 1)) = addr (bs ! i)"
  show ?thesis
  proof (cases ?c)
    case True
    then have w0: "0 < w" and fa: "free (bs ! (w - 1))" and fb: "free (bs ! i)" using wpos by auto
    let ?a = "bsize (bs ! (w - 1))" and ?b = "bsize (bs ! i)"
    let ?m = "(bs ! (w - 1)) \<lparr> bsize := ?a + ?b \<rparr>"
    have ms: "merge_step i s = (bs[w - 1 := ?m], w)" using True s by (simp add: merge_step_def)
    have wl: "w - 1 < length (take w bs)" using w0 wi i len by simp
    have nthw: "take w bs ! (w - 1) = bs ! (w - 1)" using w0 by simp
    have a_le: "unat ?a \<le> free_sizes (take w bs)"
      using free_block_le_free_sizes [OF wl] fa nthw by simp
    have "free_sizes (take (Suc i) bs0) \<le> sum_sizes bs0"
      using free_sizes_le_sum_sizes [of "take (Suc i) bs0"] sum_sizes_take_le [of "Suc i" bs0]
      by linarith
    moreover have fsi: "free_sizes (take (Suc i) bs0) = free_sizes (take i bs0) + unat ?b"
      using tk0 fb nth_i by simp
    ultimately have "unat ?a + unat ?b < 2 ^ 32" using a_le fs tot by linarith
    then have ab: "unat (?a + ?b) = unat ?a + unat ?b"
      by (simp add: unat_add_lem [THEN iffD1])
    have "take w (bs[w - 1 := ?m]) = (take w bs)[w - 1 := ?m]" by (simp add: take_update_swap)
    moreover have "free_sizes ((take w bs)[w - 1 := ?m]) + unat (bsize (take w bs ! (w - 1)))
        = free_sizes (take w bs) + unat (bsize ?m)"
      using free_sizes_update_free [OF wl, of ?m] fa nthw by simp
    ultimately have "free_sizes (take w (bs[w - 1 := ?m])) = free_sizes (take w bs) + unat ?b"
      using nthw ab by simp
    then have f': "free_sizes (take w (bs[w - 1 := ?m])) = free_sizes (take (Suc i) bs0)"
      using fs fsi by simp
    have d': "drop (Suc i) (bs[w - 1 := ?m]) = drop (Suc i) bs0"
      using dr' wi w0 by simp
    show ?thesis using ms len wi w0 d' f' by (simp add: merge_inv_def)
  next
    case False
    let ?bs' = "if w \<noteq> i then bs[w := bs ! i] else bs"
    have ms: "merge_step i s = (?bs', Suc w)" using False s by (simp add: merge_step_def)
    have wl: "w < length bs" using wi i len by simp
    have tk: "take (Suc w) ?bs' = take w bs @ [bs ! i]"
    proof (cases "w = i")
      case True
      then show ?thesis using wl by (simp add: take_Suc_conv_app_nth)
    next
      case False
      then have "take (Suc w) (bs[w := bs ! i]) = take w (bs[w := bs ! i]) @ [bs[w := bs ! i] ! w]"
        using wl by (simp add: take_Suc_conv_app_nth)
      then show ?thesis using False wl by simp
    qed
    have f': "free_sizes (take (Suc w) ?bs') = free_sizes (take (Suc i) bs0)"
      unfolding tk tk0 using fs nth_i by simp
    have d': "drop (Suc i) ?bs' = drop (Suc i) bs0" using dr' wi by simp
    have l': "length ?bs' = length bs0" using len by simp
    show ?thesis unfolding ms merge_inv_def fst_conv snd_conv using l' wi d' f' by simp
  qed
qed

lemma merge_fold_inv:
  "sum_sizes bs0 < 2 ^ 32 \<Longrightarrow> n \<le> length bs0 \<Longrightarrow>
   merge_inv bs0 n (fold merge_step [0 ..< n] (bs0, 0))"
proof (induction n)
  case 0
  then show ?case by (simp add: merge_inv_def)
next
  case (Suc n)
  then have "merge_inv bs0 n (fold merge_step [0 ..< n] (bs0, 0))" by simp
  from merge_step_inv [OF Suc.prems(1) _ this] Suc.prems show ?case by simp
qed

lemma merge_adjacent_free_sizes:
  assumes "sum_sizes bs < 2 ^ 32"
  shows "free_sizes (merge_adjacent bs) = free_sizes bs"
  using merge_fold_inv [OF assms, of "length bs"]
  by (simp add: merge_adjacent_def merge_inv_def Let_def)

lemma sum_sizes_mset: "mset bs = mset bs' \<Longrightarrow> sum_sizes bs = sum_sizes bs'"
proof -
  assume h: "mset bs = mset bs'"
  have "\<And>xs. sum_sizes xs = sum_mset (image_mset (\<lambda>b. unat (bsize b)) (mset xs))"
    by (simp add: sum_sizes_def flip: mset_map sum_mset_sum_list)
  then show ?thesis using h by simp
qed

lemma mem_coalesce_pool_free_sizes:
  assumes "bs \<noteq> []" "sum_sizes bs < 2 ^ 32"
  shows "\<exists>bs'. mem_coalesce_pool bs = Some bs' \<and> free_sizes bs' = free_sizes bs"
proof -
  have "sum_sizes (bubble_sort_blocks bs) < 2 ^ 32"
    using sum_sizes_mset [OF bubble_sort_blocks_mset [of bs]] assms by simp
  from merge_adjacent_free_sizes [OF this] free_sizes_mset [OF bubble_sort_blocks_mset [of bs]]
  show ?thesis using assms by (simp add: mem_coalesce_pool_def)
qed


subsection \<open>Allocation keeps the pool invariant\<close>

lemma best_fit_Some:
  "best_fit bs sz i bi bsz = Some j \<Longrightarrow>
   bi = Some j \<or> (i \<le> j \<and> j - i < length bs \<and> free (bs ! (j - i)) \<and> sz \<le> bsize (bs ! (j - i)))"
proof (induction bs arbitrary: i bi bsz)
  case Nil
  then show ?case by simp
next
  case (Cons b bs)
  show ?case
  proof (cases "free b \<and> sz \<le> bsize b \<and> bsize b < bsz \<and> bsize b = sz")
    case True
    with Cons.prems show ?thesis by auto
  next
    case False
    then obtain bi' bsz' where rec: "best_fit bs sz (Suc i) bi' bsz' = Some j"
      and bi': "bi' = bi \<or> (bi' = Some i \<and> free b \<and> sz \<le> bsize b)"
      using Cons.prems by (auto split: if_splits)
    from Cons.IH [OF rec] have
      "bi' = Some j \<or> (Suc i \<le> j \<and> j - Suc i < length bs \<and> free (bs ! (j - Suc i))
         \<and> sz \<le> bsize (bs ! (j - Suc i)))" .
    then show ?thesis
    proof
      assume "bi' = Some j"
      with bi' show ?thesis by auto
    next
      assume h: "Suc i \<le> j \<and> j - Suc i < length bs \<and> free (bs ! (j - Suc i))
         \<and> sz \<le> bsize (bs ! (j - Suc i))"
      then have "j - i = Suc (j - Suc i)" by arith
      with h show ?thesis by simp
    qed
  qed
qed

lemma best_fit_found:
  assumes "best_fit bs sz 0 None bsz = Some j"
  shows "j < length bs \<and> free (bs ! j) \<and> sz \<le> bsize (bs ! j)"
  using best_fit_Some [OF assms] by simp

lemma mem_alloc_from_pool_inv:
  assumes inv: "pool_inv cap tsk (blocks p)"
  shows "pool_inv cap tsk (blocks (snd (mem_alloc_from_pool p sz0 tsk mx)))"
proof (cases "sz0 = 0")
  case True
  then show ?thesis using inv by (simp add: mem_alloc_from_pool_def)
next
  case nz: False
  let ?sz = "align_size sz0"
  show ?thesis
  proof (cases "best_fit (blocks p) ?sz 0 None 0xFFFFFFFF")
    case None
    then show ?thesis using inv nz by (simp add: mem_alloc_from_pool_def)
  next
    case (Some j)
    let ?bs = "blocks p"
    let ?block = "?bs ! j"
    from best_fit_found [OF Some] have j: "j < length ?bs" and fr: "free ?block"
      and fits: "?sz \<le> bsize ?block" by auto
    let ?split = "?sz + MIMIC_MIN_BLOCK_SPLIT < bsize ?block \<and> length ?bs < mx"
    let ?new = "\<lparr> addr = addr ?block + ?sz, bsize = bsize ?block - ?sz,
                  task_id = 0, free = True, pinned = False \<rparr>"
    let ?b2 = "(if ?split then ?block \<lparr> bsize := ?sz \<rparr> else ?block) \<lparr> free := False, task_id := tsk \<rparr>"
    let ?bs1 = "if ?split then ?bs @ [?new] else ?bs"
    have res: "blocks (snd (mem_alloc_from_pool p sz0 tsk mx)) = ?bs1[j := ?b2]"
      using nz Some by (simp add: mem_alloc_from_pool_def Let_def)
    have upd: "sum_sizes (?bs[j := ?b2]) + unat (bsize ?block) = sum_sizes ?bs + unat (bsize ?b2)"
      by (rule sum_sizes_update [OF j])
    have sub: "unat (bsize ?block - ?sz) = unat (bsize ?block) - unat ?sz"
      using fits by (simp add: unat_sub)
    have le: "unat ?sz \<le> unat (bsize ?block)" using fits by (simp add: word_le_nat_alt)
    have sum: "sum_sizes (?bs1[j := ?b2]) = sum_sizes ?bs"
    proof (cases ?split)
      case True
      then have "?bs1[j := ?b2] = ?bs[j := ?b2] @ [?new]" using j by (simp add: list_update_append1)
      moreover have "bsize ?b2 = ?sz" using True by simp
      ultimately show ?thesis using upd sub le by simp
    next
      case False
      then have "?bs1[j := ?b2] = ?bs[j := ?b2]" "bsize ?b2 = bsize ?block" by auto
      then show ?thesis using upd by simp
    qed
    have "set (?bs1[j := ?b2]) \<subseteq> insert ?b2 (set ?bs1)" by (rule set_update_subset_insert)
    moreover have "set ?bs1 \<subseteq> insert ?new (set ?bs)" by auto
    ultimately have own: "\<forall>b\<in>set (?bs1[j := ?b2]). \<not> free b \<longrightarrow> task_id b = tsk"
      using inv unfolding pool_inv_def by (auto split: if_splits)
    have "?bs1[j := ?b2] \<noteq> []" using inv by (auto simp: pool_inv_def)
    then show ?thesis using sum own inv unfolding res pool_inv_def by simp
  qed
qed

lemma mimic_umalloc_inv:
  "pool_inv cap tsk (user_blocks k) \<Longrightarrow>
   pool_inv cap tsk (user_blocks (snd (mimic_umalloc cfg tsk sz k)))"
  using mem_alloc_from_pool_inv [of cap tsk "user_pool k" sz "MIMIC_MAX_MEM_BLOCKS cfg"]
  by (simp add: mimic_umalloc_def Let_def set_user_pool_def user_pool_def)

lemma umalloc_seq_inv:
  "pool_inv cap tsk (user_blocks k) \<Longrightarrow> pool_inv cap tsk (user_blocks (umalloc_seq cfg tsk sizes k))"
  unfolding umalloc_seq_def
  by (induction sizes arbitrary: k) (simp_all add: mimic_umalloc_inv)

lemma mem_init_inv: "pool_inv (unat (MIMIC_USER_HEAP cfg)) tsk (user_blocks (mem_init cfg k))"
  by (simp add: pool_inv_def mem_init_def)

lemma mark_owned_free_sum: "sum_sizes (map (mark_owned_free tsk) bs) = sum_sizes bs"
  by (induction bs) (auto simp: mark_owned_free_def)

lemma mark_owned_free_all:
  "\<forall>b\<in>set bs. \<not> free b \<longrightarrow> task_id b = tsk \<Longrightarrow> \<forall>b\<in>set (map (mark_owned_free tsk) bs). free b"
  by (auto simp: mark_owned_free_def)

lemma free_all_from_inv:
  assumes inv: "pool_inv cap tsk (user_blocks k)" and cap: "cap < 2 ^ 32"
  shows "\<exists>k'. mimic_task_free_all_memory tsk k = Some k' \<and> free_sizes (user_blocks k') = cap"
proof -
  let ?bs1 = "map (mark_owned_free tsk) (user_blocks k)"
  have ne: "?bs1 \<noteq> []" using inv by (simp add: pool_inv_def)
  have sm: "sum_sizes ?bs1 = cap" using inv by (simp add: mark_owned_free_sum pool_inv_def)
  have "\<forall>b\<in>set ?bs1. free b" using inv mark_owned_free_all unfolding pool_inv_def by blast
  then have fr: "free_sizes ?bs1 = cap" using sm by (simp add: free_sizes_all_free)
  from mem_coalesce_pool_free_sizes [OF ne] sm cap obtain bs' where
    "mem_coalesce_pool ?bs1 = Some bs'" "free_sizes bs' = free_sizes ?bs1" by auto
  then show ?thesis using fr by (simp add: mimic_task_free_all_memory_def Let_def)
qed

text \<open>C5. Start from the arena as \<open>mem_init\<close> leaves it and let task \<open>tsk\<close> make any
  sequence of user-arena allocations, of any sizes, some of which may fail; no other
  task holds a block. Then the mass-free for \<open>tsk\<close> (mark every block of \<open>tsk\<close> that is
  in use as free, then coalesce) returns, and the sizes of the free blocks of the user
  arena add up to the pool's capacity.\<close>

theorem free_all_restores_pool_capacity:
  "\<exists>k'. mimic_task_free_all_memory tsk (umalloc_seq cfg tsk sizes (mem_init cfg k0)) = Some k'
        \<and> free_sizes (user_blocks k') = unat (MIMIC_USER_HEAP cfg)"
proof -
  have "unat (MIMIC_USER_HEAP cfg) < 2 ^ 32" by (simp add: MIMIC_USER_HEAP_def)
  from free_all_from_inv [OF umalloc_seq_inv [OF mem_init_inv] this] show ?thesis .
qed
section \<open>Arena allocator: the split threshold and the ownership check\<close>

text \<open>C6. The spec splits the chosen block when it exceeds the request by at least 64
  bytes and the table is not full. The code compares with \<open>>\<close>, not \<open>>=\<close>: after
  \<open>umalloc(1, 184224)\<close> on a fresh RP2040 user heap the table holds two blocks (of 64
  possible), the second free and 96 bytes long; \<open>umalloc(1, 32)\<close> then picks it, 64 bytes
  more than the request, and hands out all 96 bytes without splitting.\<close>

theorem alloc_does_not_split_at_threshold:
  "(let r1 = mimic_umalloc cfg_rp2040 1 184224 k_boot;
        r2 = mimic_umalloc cfg_rp2040 1 32 (snd r1)
    in user_blocks (snd r1) =
         [\<lparr> addr = 0x20000000, bsize = 184224, task_id = 1, free = False, pinned = False \<rparr>,
          \<lparr> addr = 0x2002CFA0, bsize = 96, task_id = 0, free = True, pinned = False \<rparr>]
       \<and> length (user_blocks (snd r1)) < MIMIC_MAX_MEM_BLOCKS cfg_rp2040
       \<and> align_size 32 + MIMIC_MIN_BLOCK_SPLIT = 96
       \<and> fst r2 = 0x2002CFA0
       \<and> user_blocks (snd r2) =
         [\<lparr> addr = 0x20000000, bsize = 184224, task_id = 1, free = False, pinned = False \<rparr>,
          \<lparr> addr = 0x2002CFA0, bsize = 96, task_id = 1, free = False, pinned = False \<rparr>])"
  by code_simp

text \<open>C7. \<open>mimic_ufree\<close> checks ownership on any block at the address and then frees the
  first block at the address that is in use; the two need not be the same block. A
  request of \<open>0xFFFFFFFF\<close> bytes by task 1 rounds to 0 and leaves a zero-sized block of
  task 1 at the heap's base; the next allocation, by task 2, gets the same address.
  When task 2 frees its pointer, the block marked free is task 1's, and task 2's own
  block stays allocated.\<close>

theorem ufree_frees_another_tasks_block:
  "(let r1 = mimic_umalloc cfg_rp2040 1 0xFFFFFFFF k_boot;
        r2 = mimic_umalloc cfg_rp2040 2 32 (snd r1);
        k3 = mimic_ufree 2 (fst r2) (snd r2)
    in fst r1 = 0x20000000 \<and> fst r2 = 0x20000000
       \<and> user_blocks (snd r2) =
         [\<lparr> addr = 0x20000000, bsize = 0, task_id = 1, free = False, pinned = False \<rparr>,
          \<lparr> addr = 0x20000000, bsize = 32, task_id = 2, free = False, pinned = False \<rparr>,
          \<lparr> addr = 0x20000020, bsize = 184288, task_id = 0, free = True, pinned = False \<rparr>]
       \<and> user_blocks k3 =
         [\<lparr> addr = 0x20000000, bsize = 0, task_id = 1, free = True, pinned = False \<rparr>,
          \<lparr> addr = 0x20000000, bsize = 32, task_id = 2, free = False, pinned = False \<rparr>,
          \<lparr> addr = 0x20000020, bsize = 184288, task_id = 0, free = True, pinned = False \<rparr>])"
  by code_simp

section \<open>Scheduler and syscall dispatch: results\<close>

text \<open>C4. The pick loop of \<open>scheduler_tick\<close> looks at READY tasks only, so the task that
  is RUNNING is not a candidate. With A (priority 2, slot 1) and B (priority 5, slot 2)
  both READY, the first tick runs A; at the second tick A has not slept, yielded or
  exited, and the tick puts B into RUNNING and A back to READY.\<close>

theorem scheduler_tick_runs_lower_priority_task:
  "(let k1 = scheduler_tick cfg_rp2040 1000 two_tasks_ready;
        k2 = scheduler_tick cfg_rp2040 2000 k1
    in map (\<lambda>t. (state t, priority t)) (take 3 (tasks two_tasks_ready)) =
         [(TASK_STATE_READY, 255), (TASK_STATE_READY, 2), (TASK_STATE_READY, 5)]
       \<and> map state (take 3 (tasks k1)) =
         [TASK_STATE_READY, TASK_STATE_RUNNING, TASK_STATE_READY]
       \<and> current_task k1 = 1
       \<and> map state (take 3 (tasks k2)) =
         [TASK_STATE_READY, TASK_STATE_READY, TASK_STATE_RUNNING]
       \<and> current_task k2 = 2)"
  by code_simp

text \<open>C8. Syscall 12 (REALLOC) is in the spec's table, and the user-side headers call
  it, but the dispatcher has no case for it: whatever the arguments and the state, the
  call only counts the syscall and returns \<open>MIMIC_ERR_NOSYS\<close>.\<close>

theorem syscall_realloc_not_implemented:
  "mimic_syscall cfg x MIMIC_SYS_REALLOC a0 a1 a2 a3 (k, w)
     = Some (word_of_int MIMIC_ERR_NOSYS, k \<lparr> syscalls_handled := syscalls_handled k + 1 \<rparr>, w)
   \<and> sint (word_of_int MIMIC_ERR_NOSYS :: u32) = - 7
   \<and> MIMIC_SYS_REALLOC \<in> set syscall_table"
  by (simp add: mimic_syscall_def syscall_table_def)

section \<open>Binary loader: results\<close>

subsection \<open>The BL encoding\<close>

lemma sdb_and_1: "n < 32 \<Longrightarrow> signed_drop_bit n (x :: u32) AND 1 = of_bool (bit x n)"
  by (rule bit_word_eqI) (auto simp: bit_simps)

lemma sdb_imm10: "signed_drop_bit 12 (x :: u32) AND 0x3FF = take_bit 10 (drop_bit 12 x)"
proof -
  have "signed_drop_bit 12 x AND mask 10 = take_bit 10 (drop_bit 12 x)"
    by (rule bit_word_eqI) (auto simp: bit_simps)
  then show ?thesis by (simp add: mask_eq_exp_minus_1)
qed

lemma sdb_imm11: "signed_drop_bit 1 (x :: u32) AND 0x7FF = take_bit 11 (drop_bit 1 x)"
proof -
  have "signed_drop_bit 1 x AND mask 11 = take_bit 11 (drop_bit 1 x)"
    by (rule bit_word_eqI) (auto simp: bit_simps)
  then show ?thesis by (simp add: mask_eq_exp_minus_1)
qed

lemma j_bit: "(NOT (of_bool p) XOR of_bool q) AND (1 :: u32) = of_bool ((\<not> p) \<noteq> q)"
  by (cases p; cases q) simp_all

lemma thumb_call_halfwords_eq_spec: "thumb_call_halfwords offset = bl_spec offset"
proof -
  have s: "signed_drop_bit 24 offset AND 1 = of_bool (bit offset 24)"
    "signed_drop_bit 23 offset AND 1 = of_bool (bit offset 23)"
    "signed_drop_bit 22 offset AND 1 = of_bool (bit offset 22)"
    by (simp_all add: sdb_and_1)
  show ?thesis
    unfolding thumb_call_halfwords_def bl_spec_def Let_def s sdb_imm10 sdb_imm11 j_bit
    by (rule refl)
qed

lemma load16_store16_same: "load16 (store16 m a v) a = v"
  unfolding load16_def store16_def
  by (simp, rule bit_word_eqI) (auto simp: bit_simps)

lemma load16_store16_other:
  "a \<noteq> b \<Longrightarrow> a \<noteq> b + 1 \<Longrightarrow> a + 1 \<noteq> b \<Longrightarrow> load16 (store16 m b v) a = load16 m a"
  unfolding load16_def store16_def by simp

lemma patch_thumb_call_halfwords:
  "load16 (patch_reloc MIMI_RELOC_THUMB_CALL pa sv m) pa = fst (bl_spec (sv - pa - 4))
   \<and> load16 (patch_reloc MIMI_RELOC_THUMB_CALL pa sv m) (pa + 2) = snd (bl_spec (sv - pa - 4))"
  by (simp add: patch_reloc_def Let_def load16_store16_same load16_store16_other
      thumb_call_halfwords_eq_spec)

lemma bl_scenario_load:
  "(case mimic_load_binary cfg_rp2040 (Inr \<lparr> f_data = bl_binary, f_pos = 0 \<rparr>) tcb_zero
          k_boot ram_zero of
      None \<Rightarrow> False
    | Some (e, t, k, m) \<Rightarrow>
        e = MIMIC_OK \<and> m_base (mem t) = 0x20000000
        \<and> load16 m 0x20000100 = 0xF000 \<and> load16 m 0x20000102 = 0xF87E)"
  by code_simp

lemma bl_spec_scenario: "bl_spec (0x20000200 - 0x20000100 - 4) = (0xF000, 0xF87E)"
  by code_simp

text \<open>C2. For a \<open>THUMB_CALL\<close> relocation at \<open>patch_addr\<close> against a symbol of runtime value
  \<open>sym_value\<close>, the loader leaves at \<open>patch_addr\<close> and \<open>patch_addr + 2\<close> the two halfwords
  the spec's formula gives for \<open>offset = sym_value - patch_addr - 4\<close>. Loading the
  scenario's binary (symbol at text offset \<open>0x200\<close>, call site at \<open>0x100\<close>) at base
  \<open>0x20000000\<close> succeeds and leaves \<open>0xF000\<close> at \<open>0x20000100\<close> and \<open>0xF87E\<close> at
  \<open>0x20000102\<close>, which is what the formula gives for offset \<open>0xFC\<close>.\<close>

theorem thumb_call_reloc_writes_spec_bl:
  "load16 (patch_reloc MIMI_RELOC_THUMB_CALL patch_addr sym_value m) patch_addr
     = fst (bl_spec (sym_value - patch_addr - 4))
   \<and> load16 (patch_reloc MIMI_RELOC_THUMB_CALL patch_addr sym_value m) (patch_addr + 2)
     = snd (bl_spec (sym_value - patch_addr - 4))
   \<and> bl_spec (0x20000200 - 0x20000100 - 4) = (0xF000, 0xF87E)
   \<and> (case mimic_load_binary cfg_rp2040 (Inr \<lparr> f_data = bl_binary, f_pos = 0 \<rparr>) tcb_zero
            k_boot ram_zero of
        None \<Rightarrow> False
      | Some (e, t, k, m1) \<Rightarrow>
          e = MIMIC_OK \<and> m_base (mem t) = 0x20000000
          \<and> load16 m1 0x20000100 = 0xF000 \<and> load16 m1 0x20000102 = 0xF87E)"
  using patch_thumb_call_halfwords [of patch_addr sym_value m] bl_spec_scenario bl_scenario_load
  by blast

subsection \<open>Malformed relocation records\<close>

lemma apply_reloc_skips_bad_section:
  "r_section r \<noteq> 1 \<Longrightarrow> r_section r \<noteq> 2 \<Longrightarrow> r_section r \<noteq> 3 \<Longrightarrow>
   apply_reloc hdr symtab tm base r m = Some m"
  by (simp add: apply_reloc_def reloc_patch_addr_def)

lemma reloc_sym_value_zero:
  "symbol_count hdr \<le> r_symbol_idx r \<or> symtab = None \<Longrightarrow>
   reloc_sym_value hdr symtab tm base r = Some 0"
  by (auto simp: reloc_sym_value_def split: option.splits)

lemma apply_reloc_bad_symbol:
  "reloc_patch_addr tm base r = Some pa \<Longrightarrow>
   symbol_count hdr \<le> r_symbol_idx r \<or> symtab = None \<Longrightarrow>
   reloc_store_defined tm base (r_type r) pa \<Longrightarrow>
   apply_reloc hdr symtab tm base r m = Some (patch_reloc (r_type r) pa 0 m)"
  by (simp add: apply_reloc_def reloc_sym_value_zero)

lemma apply_reloc_outside_block:
  "reloc_patch_addr tm base r = Some pa \<Longrightarrow>
   \<not> reloc_store_defined tm base (r_type r) pa \<Longrightarrow>
   apply_reloc hdr symtab tm base r m = None"
  by (simp add: apply_reloc_def split: option.splits)

lemma reloc_sym_value_total:
  assumes "symtab_covers hdr symtab"
  shows "\<exists>v. reloc_sym_value hdr symtab tm base r = Some v"
proof (cases symtab)
  case None
  then show ?thesis by (simp add: reloc_sym_value_def)
next
  case (Some syms)
  show ?thesis
  proof (cases "r_symbol_idx r < symbol_count hdr")
    case True
    then have "unat (r_symbol_idx r) < unat (symbol_count hdr)" by (simp add: word_less_nat_alt)
    then have "unat (r_symbol_idx r) < length syms"
      using assms Some by (simp add: symtab_covers_def)
    then show ?thesis using Some True by (simp add: reloc_sym_value_def)
  next
    case False
    then show ?thesis using Some by (simp add: reloc_sym_value_def)
  qed
qed

lemma apply_reloc_total:
  assumes "symtab_covers hdr symtab" and "reloc_in_block tm base r"
  shows "\<exists>m'. apply_reloc hdr symtab tm base r m = Some m'"
proof (cases "reloc_patch_addr tm base r")
  case None
  then show ?thesis by (simp add: apply_reloc_def)
next
  case (Some pa)
  obtain v where v: "reloc_sym_value hdr symtab tm base r = Some v"
    using reloc_sym_value_total [OF assms(1)] by blast
  have "reloc_store_defined tm base (r_type r) pa"
    using assms(2) Some by (simp add: reloc_in_block_def)
  then show ?thesis using Some v by (simp add: apply_reloc_def)
qed

lemma file_relocs_Suc:
  assumes "f_pos f + sizeof_MimiReloc \<le> length (f_data f)"
  shows "file_relocs f (Suc n)
     = decode_reloc (fst (mimic_fread f sizeof_MimiReloc))
       # file_relocs (snd (mimic_fread f sizeof_MimiReloc)) n"
proof -
  have up: "[0 ..< Suc n] = 0 # map Suc [0 ..< n]"
    by (simp add: upt_conv_Cons map_Suc_upt del: upt_Suc)
  have l: "length (take 12 (drop (f_pos f) (f_data f))) = 12" using assms by simp
  have e: "\<And>i. f_pos f + 12 * Suc i = f_pos f + 12 + 12 * i" by simp
  show ?thesis
    unfolding file_relocs_def up mimic_fread_def Let_def list.map map_map comp_def
    apply (simp only: fst_conv snd_conv l e mfile.simps mult_0_right add_0_right)
    apply simp
    done
qed

lemma process_relocs_ok:
  assumes cov: "symtab_covers hdr symtab"
  shows "f_pos f + sizeof_MimiReloc * n \<le> length (f_data f) \<Longrightarrow>
         list_all (reloc_in_block tm base) (file_relocs f n) \<Longrightarrow>
         \<exists>m'. process_relocs n hdr symtab tm base f m = Some (MIMIC_OK, m')"
proof (induction n arbitrary: f m)
  case 0
  then show ?case by simp
next
  case (Suc n)
  let ?rd = "mimic_fread f sizeof_MimiReloc"
  have len: "length (fst ?rd) = sizeof_MimiReloc"
    using Suc.prems(1) by (simp add: mimic_fread_def Let_def)
  have pos: "f_pos (snd ?rd) + sizeof_MimiReloc * n \<le> length (f_data (snd ?rd))"
    using Suc.prems(1) by (simp add: mimic_fread_def Let_def)
  have fst_le: "f_pos f + sizeof_MimiReloc \<le> length (f_data f)"
    using Suc.prems(1) by simp
  have inb: "reloc_in_block tm base (decode_reloc (fst ?rd))"
    and rest: "list_all (reloc_in_block tm base) (file_relocs (snd ?rd) n)"
    using Suc.prems(2) unfolding file_relocs_Suc [OF fst_le] by simp_all
  obtain m1 where m1: "apply_reloc hdr symtab tm base (decode_reloc (fst ?rd)) m = Some m1"
    using apply_reloc_total [OF cov inb] by blast
  from Suc.IH [OF pos rest, of m1] obtain m' where
    "process_relocs n hdr symtab tm base (snd ?rd) m1 = Some (MIMIC_OK, m')" by blast
  then show ?case using len m1 by (simp add: Let_def)
qed

lemma malformed_load_ok:
  "(case mimic_load_binary cfg_rp2040 (Inr \<lparr> f_data = malformed_binary, f_pos = 0 \<rparr>) tcb_zero
          k_boot ram_zero of
      None \<Rightarrow> False
    | Some (e, t, k, m) \<Rightarrow>
        e = MIMIC_OK
        \<and> map m [0x20000000, 0x20000001, 0x20000002, 0x20000003] = [0xF0, 0xB5, 0x2A, 0x20]
        \<and> map m [0x20000004, 0x20000005, 0x20000006, 0x20000007] = [0, 0, 0, 0])"
  by code_simp

lemma wild_load_undefined:
  "mimic_load_binary cfg_rp2040 (Inr \<lparr> f_data = wild_binary, f_pos = 0 \<rparr>) tcb_zero k_boot
     ram_zero = None"
  by code_simp

lemma wild_record_facts:
  "symbol_count hdr_wild \<le> r_symbol_idx wild_offset_reloc
   \<and> reloc_patch_addr (task_layout hdr_wild 0x20000000 12320 4096 8192) 0x20000000
        wild_offset_reloc = Some 0x60000000
   \<and> block_holds 0x20000000 12320 0x60000000 4 = False"
  by (simp add: hdr_wild_def hdr0_def wild_offset_reloc_def task_layout_def
      reloc_patch_addr_def block_holds_def Let_def)

text \<open>C10, as the claim has it (a relocation record whose symbol index is not below
  \<open>symbol_count\<close> is applied with symbol value 0 and the load continues): not for every
  such record. The loader stores through the patch address without looking at it. The
  one record of \<open>wild_binary\<close> names symbol 9 of a table of one, in .text at offset
  \<open>0x40000000\<close>: its patch address \<open>0x60000000\<close> is outside the task's block of 12320
  bytes at \<open>0x20000000\<close>, and the load has no result.\<close>

theorem wild_relocation_offset_breaks_the_load:
  "symbol_count hdr_wild \<le> r_symbol_idx wild_offset_reloc
   \<and> reloc_patch_addr (task_layout hdr_wild 0x20000000 12320 4096 8192) 0x20000000
        wild_offset_reloc = Some 0x60000000
   \<and> block_holds 0x20000000 12320 0x60000000 4 = False
   \<and> mimic_load_binary cfg_rp2040 (Inr \<lparr> f_data = wild_binary, f_pos = 0 \<rparr>) tcb_zero k_boot
        ram_zero = None"
  using wild_record_facts wild_load_undefined by blast

text \<open>C10, amended. A relocation record that was read in full does not make the load
  fail as long as its store, if it makes one, is aligned and inside the task's block.
  One whose section is not TEXT, RODATA or DATA leaves RAM as it is, whatever its other
  fields hold. One whose symbol index is not below \<open>symbol_count\<close>, or that comes with no
  symbol table loaded, is applied at its patch address with symbol value 0 when the
  store there is defined. The relocation loop over \<open>n\<close> records ends with \<open>MIMIC_OK\<close>
  when the file holds \<open>n\<close> records of 12 bytes from the current position and each of
  them is skipped or has a defined store. A binary with one record of each malformed
  kind loads with \<open>MIMIC_OK\<close>: its first text word is untouched, its second is
  overwritten with 0.\<close>

theorem malformed_relocations_in_block_never_fail_the_load:
  "(r_section r \<noteq> 1 \<and> r_section r \<noteq> 2 \<and> r_section r \<noteq> 3
      \<longrightarrow> apply_reloc hdr symtab tm base r m = Some m)
   \<and> (reloc_patch_addr tm base r = Some pa
        \<and> (symbol_count hdr \<le> r_symbol_idx r \<or> symtab = None)
        \<and> reloc_store_defined tm base (r_type r) pa
      \<longrightarrow> apply_reloc hdr symtab tm base r m = Some (patch_reloc (r_type r) pa 0 m))
   \<and> (symtab_covers hdr symtab \<and> f_pos f + sizeof_MimiReloc * n \<le> length (f_data f)
        \<and> list_all (reloc_in_block tm base) (file_relocs f n)
      \<longrightarrow> (\<exists>m'. process_relocs n hdr symtab tm base f m = Some (MIMIC_OK, m')))
   \<and> (case mimic_load_binary cfg_rp2040 (Inr \<lparr> f_data = malformed_binary, f_pos = 0 \<rparr>)
            tcb_zero k_boot ram_zero of
        None \<Rightarrow> False
      | Some (e, t, k, m1) \<Rightarrow>
          e = MIMIC_OK
          \<and> map m1 [0x20000000, 0x20000001, 0x20000002, 0x20000003] = [0xF0, 0xB5, 0x2A, 0x20]
          \<and> map m1 [0x20000004, 0x20000005, 0x20000006, 0x20000007] = [0, 0, 0, 0])"
  using apply_reloc_skips_bad_section [of r hdr symtab tm base m]
    apply_reloc_bad_symbol [of tm base r pa hdr symtab m]
    process_relocs_ok [of hdr symtab f n tm base m]
    malformed_load_ok
  by blast

theorem malformed_relocations_in_block_never_fail_the_load_witness:
  "apply_reloc hdr_malformed (Some [sym_main]) tm_malformed 0x20000000 bad_section_reloc
       ram_malformed
     = Some ram_malformed
   \<and> apply_reloc hdr_malformed (Some [sym_main]) tm_malformed 0x20000000 bad_symbol_reloc
       ram_malformed
     = Some (patch_reloc MIMI_RELOC_ABS32 0x20000004 0 ram_malformed)
   \<and> map ram_malformed [0x20000004, 0x20000005, 0x20000006, 0x20000007]
     = [0xF0, 0xBD, 0x00, 0xBF]
   \<and> map (patch_reloc MIMI_RELOC_ABS32 0x20000004 0 ram_malformed)
         [0x20000004, 0x20000005, 0x20000006, 0x20000007]
     = [0, 0, 0, 0]
   \<and> (\<exists>m'. process_relocs 2 hdr_malformed (Some [sym_main]) tm_malformed 0x20000000
              \<lparr> f_data = malformed_binary, f_pos = 76 \<rparr> ram_malformed = Some (MIMIC_OK, m'))"
proof -
  let ?f = "\<lparr> f_data = malformed_binary, f_pos = 76 \<rparr>"
  have a: "r_section bad_section_reloc \<noteq> 1 \<and> r_section bad_section_reloc \<noteq> 2
           \<and> r_section bad_section_reloc \<noteq> 3"
    by (simp add: bad_section_reloc_def)
  have b: "reloc_patch_addr tm_malformed 0x20000000 bad_symbol_reloc = Some 0x20000004
           \<and> symbol_count hdr_malformed \<le> r_symbol_idx bad_symbol_reloc
           \<and> r_type bad_symbol_reloc = MIMI_RELOC_ABS32
           \<and> reloc_store_defined tm_malformed 0x20000000 MIMI_RELOC_ABS32 0x20000004"
    by (simp add: bad_symbol_reloc_def hdr_malformed_def hdr0_def tm_malformed_def
        task_layout_def reloc_patch_addr_def reloc_store_defined_def block_holds_def Let_def)
  have c: "symtab_covers hdr_malformed (Some [sym_main])
           \<and> f_pos ?f + sizeof_MimiReloc * 2 \<le> length (f_data ?f)
           \<and> list_all (reloc_in_block tm_malformed 0x20000000) (file_relocs ?f 2)"
    by code_simp
  have d: "map ram_malformed [0x20000004, 0x20000005, 0x20000006, 0x20000007]
             = [0xF0, 0xBD, 0x00, 0xBF]
           \<and> map (patch_reloc MIMI_RELOC_ABS32 0x20000004 0 ram_malformed)
                 [0x20000004, 0x20000005, 0x20000006, 0x20000007]
             = [0, 0, 0, 0]"
    by code_simp
  show ?thesis
    using a b c d
      malformed_relocations_in_block_never_fail_the_load
        [of bad_section_reloc hdr_malformed "Some [sym_main]" tm_malformed "0x20000000"
            ram_malformed "0x20000004" ?f 2]
      malformed_relocations_in_block_never_fail_the_load
        [of bad_symbol_reloc hdr_malformed "Some [sym_main]" tm_malformed "0x20000000"
            ram_malformed "0x20000004" ?f 2]
    by simp
qed

section \<open>Compile pipeline: results\<close>

subsection \<open>What the code generator emits\<close>

lemma enc_values:
  "thumb_push 0x40F0 = 0xB5F0"
  "thumb_mov_imm REG_R0 42 = 0x202A"
  "thumb_pop 0x80F0 = 0xBDF0"
  by (simp_all add: thumb_push_def thumb_mov_imm_def thumb_pop_def Let_def)

lemma prologue0:
  "cg_function_prologue cg_init 0 = cg_init \<lparr> cg_code := [0xF0, 0xB5] \<rparr>"
  by (simp add: cg_function_prologue_def cg_init_def cg_emit16_def enc_values Let_def)

lemma mov42:
  "cg_emit16 (cg_init \<lparr> cg_code := [0xF0, 0xB5] \<rparr>) 0x202A
     = cg_init \<lparr> cg_code := [0xF0, 0xB5, 0x2A, 0x20] \<rparr>"
  by (simp add: cg_init_def cg_emit16_def)

lemma epilogue0:
  "cg_function_epilogue (cg_init \<lparr> cg_code := [0xF0, 0xB5, 0x2A, 0x20] \<rparr>)
     = cg_init \<lparr> cg_code := [0xF0, 0xB5, 0x2A, 0x20, 0xF0, 0xBD] \<rparr>"
  by (simp add: cg_function_epilogue_def cg_init_def cg_emit16_def enc_values Let_def)

lemma fixup0:
  "cg_fixup_branches (cg_init \<lparr> cg_code := c \<rparr>) = cg_init \<lparr> cg_code := c \<rparr>"
  by (simp add: cg_fixup_branches_def cg_init_def)

lemma stub_cg:
  "cg_fixup_branches (cg_function_epilogue
     (cg_emit16 (cg_function_prologue cg_init 0) (thumb_mov_imm REG_R0 42)))
   = cg_init \<lparr> cg_code := [0xF0, 0xB5, 0x2A, 0x20, 0xF0, 0xBD] \<rparr>"
  unfolding prologue0 enc_values mov42 epilogue0 fixup0 by (rule refl)

lemma stub_object_bytes:
  "object_bytes (cg_init \<lparr> cg_code := [0xF0, 0xB5, 0x2A, 0x20, 0xF0, 0xBD] \<rparr>) = stub_object"
  by (simp add: object_bytes_def cg_init_def stub_object_def bytes_le32_def)

lemma codegen_obj:
  "snd (snd (snd (mimic_cc_codegen cfg fd cc k)))
     = (if fst (mimic_cc_codegen cfg fd cc k) = MIMIC_OK then Some stub_object else None)"
  unfolding mimic_cc_codegen_def Let_def stub_cg stub_object_bytes
  by (simp del: kmalloc_all.simps)

lemma kmalloc_boot:
  "fst (kmalloc_all cfg_rp2040 [32 * 1024, 8 * 1024, 256 * 12, 128 * 24, 256 * 4, 256 * 12] k_boot)
     = [0x20030000, 0x20038000, 0x2003A000, 0x2003AC00, 0x2003B800, 0x2003BC00]"
  by code_simp

lemma codegen_boot:
  "mimic_cc_codegen cfg_rp2040 3 cc k_boot
     = (MIMIC_OK, cc \<lparr> cc_code_bytes := 6 \<rparr>, k_after_codegen, Some stub_object)"
  unfolding mimic_cc_codegen_def Let_def stub_cg stub_object_bytes kmalloc_boot
  by (simp del: kmalloc_all.simps add: k_after_codegen_def cg_init_def)

subsection \<open>What the linker does with it\<close>

lemma load_stub_tail:
  "linker_load_object (lnk_init p) (Inr \<lparr> f_data = stub_object @ rest, f_pos = 0 \<rparr>)
     = Some (MIMIC_OK, (lnk_init p) \<lparr> l_text := [0xF0, 0xB5, 0x2A, 0x20, 0xF0, 0xBD] \<rparr>)"
  by (simp add: linker_load_object_def lnk_init_def stub_object_def mimic_fread_def Let_def
      le32_def len32_def)

lemma load_stub:
  "linker_load_object (lnk_init p) (Inr \<lparr> f_data = stub_object, f_pos = 0 \<rparr>)
     = Some (MIMIC_OK, (lnk_init p) \<lparr> l_text := [0xF0, 0xB5, 0x2A, 0x20, 0xF0, 0xBD] \<rparr>)"
  using load_stub_tail [of p "[]"] by simp

lemma load_short_header:
  "length bs < 16 \<Longrightarrow>
   linker_load_object lnk (Inr \<lparr> f_data = bs, f_pos = 0 \<rparr>) = Some (MIMIC_ERR_CORRUPT, lnk)"
  by (simp add: linker_load_object_def mimic_fread_def Let_def)

lemma load_stub_cut:
  assumes "16 \<le> n" and "n < 22"
  shows "linker_load_object (lnk_init p) (Inr \<lparr> f_data = take n stub_object, f_pos = 0 \<rparr>)
           = Some (MIMIC_ERR_IO, lnk_init p)"
proof -
  have len: "length stub_object = 22" by (simp add: stub_object_def)
  have hd16: "take 16 (take n stub_object) = take 16 stub_object"
    using assms by (simp add: min_def)
  have words: "le32 (take 16 stub_object) 0 = 6"
    by (simp add: stub_object_def le32_def)
  have code: "length (take 6 (drop 16 (take n stub_object))) = n - 16"
    using assms len by simp
  have rh: "mimic_fread \<lparr> f_data = take n stub_object, f_pos = 0 \<rparr> 16
              = (take 16 stub_object, \<lparr> f_data = take n stub_object, f_pos = 16 \<rparr>)"
    using assms len by (simp add: mimic_fread_def Let_def hd16 min_def)
  have rc: "length (fst (mimic_fread \<lparr> f_data = take n stub_object, f_pos = 16 \<rparr> 6)) = n - 16"
    using code by (simp add: mimic_fread_def Let_def)
  have six: "unat (6 :: u32) = 6" "sint (6 :: u32) = 6" by simp_all
  have ne: "int (n - 16) \<noteq> 6" using assms by simp
  show ?thesis
    unfolding linker_load_object_def sum.case rh Let_def fst_conv snd_conv words six
    using rc ne by (simp add: lnk_init_def len32_def len)
qed

lemma file_after_write_stub:
  "file_after_write old stub_object
     = (if length old < 22 then take (length old) stub_object
        else stub_object @ drop 22 old)"
proof -
  have len: "length stub_object = 22" by (simp add: stub_object_def)
  show ?thesis by (simp add: file_after_write_def len)
qed

lemma load_reopened_stub:
  "\<exists>r. linker_load_object (lnk_init p)
          (Inr \<lparr> f_data = file_after_write old stub_object, f_pos = 0 \<rparr>) = Some r
       \<and> (fst r \<noteq> MIMIC_OK \<or> \<not> l_has_entry (snd r))"
proof -
  consider (a) "length old < 16" | (b) "16 \<le> length old \<and> length old < 22"
    | (c) "22 \<le> length old" by linarith
  then show ?thesis
  proof cases
    case a
    have "length (take (length old) stub_object) < 16" using a by simp
    from load_short_header [OF this, of "lnk_init p"] a show ?thesis
      by (simp add: file_after_write_stub)
  next
    case b
    then show ?thesis
      using load_stub_cut [of "length old" p] by (simp add: file_after_write_stub)
  next
    case c
    then show ?thesis
      using load_stub_tail [of p "drop 22 old"]
      by (simp add: file_after_write_stub lnk_init_def)
  qed
qed

lemma load_objects_single:
  "linker_load_object lnk ob = Some r \<Longrightarrow> load_objects lnk [ob] = Some r"
  by (cases r) auto

lemma load_objects_unopened:
  "e \<noteq> MIMIC_OK \<Longrightarrow> load_objects (lnk_init p) [Inl e] = Some (e, lnk_init p)"
  by (simp add: linker_load_object_def)

lemma link_without_entry:
  assumes "load_objects (lnk_init p) objs = Some r"
    and "fst r \<noteq> MIMIC_OK \<or> \<not> l_has_entry (snd r)"
  shows "\<exists>e cc' k'. mimic_cc_link cfg cc objs p fd k = Some (e, cc', k', None) \<and> e \<noteq> MIMIC_OK"
  using assms unfolding mimic_cc_link_def Let_def
  by (auto simp del: kmalloc_all.simps)

lemma compile_fails:
  "\<exists>e cc' k'. mimic_cc_compile cfg lex_pass parse_pass fd_obj obj_before reopen_err p fd_out cc k
                 = Some (e, cc', k', None) \<and> e \<noteq> MIMIC_OK"
proof -
  let ?lx = "lex_pass (cc \<lparr> cc_verbose := True \<rparr>) k"
  let ?ps = "parse_pass (fst (snd ?lx)) (snd (snd ?lx))"
  let ?cg = "mimic_cc_codegen cfg fd_obj (fst (snd ?ps)) (snd (snd ?ps))"
  show ?thesis
  proof (cases "fst ?lx = MIMIC_OK \<and> fst ?ps = MIMIC_OK \<and> fst ?cg = MIMIC_OK")
    case False
    then show ?thesis unfolding mimic_cc_compile_def Let_def by auto
  next
    case True
    then have ob: "snd (snd (snd ?cg)) = Some stub_object" by (simp add: codegen_obj)
    let ?obj = "if reopen_err < 0 then Inl reopen_err
                else Inr \<lparr> f_data = file_after_write obj_before stub_object, f_pos = 0 \<rparr>"
    have eq: "mimic_cc_compile cfg lex_pass parse_pass fd_obj obj_before reopen_err p fd_out cc k
          = mimic_cc_link cfg (fst (snd ?cg)) [?obj] p fd_out (fst (snd (snd ?cg)))"
      using True ob unfolding mimic_cc_compile_def Let_def by simp
    have "\<exists>r. load_objects (lnk_init p) [?obj] = Some r
               \<and> (fst r \<noteq> MIMIC_OK \<or> \<not> l_has_entry (snd r))"
    proof (cases "reopen_err < 0")
      case True
      then show ?thesis using load_objects_unopened [of reopen_err p] by simp
    next
      case False
      obtain r where "linker_load_object (lnk_init p)
            (Inr \<lparr> f_data = file_after_write obj_before stub_object, f_pos = 0 \<rparr>) = Some r"
        and "fst r \<noteq> MIMIC_OK \<or> \<not> l_has_entry (snd r)"
        using load_reopened_stub [of p obj_before] by blast
      then show ?thesis using False load_objects_single by fastforce
    qed
    then obtain r where "load_objects (lnk_init p) [?obj] = Some r"
      and "fst r \<noteq> MIMIC_OK \<or> \<not> l_has_entry (snd r)" by blast
    from link_without_entry [OF this] show ?thesis unfolding eq .
  qed
qed

lemma kmalloc_link_after_codegen:
  "fst (kmalloc_all cfg_rp2040 [64 * 1024, 16 * 1024, 16 * 1024, 512 * 12, 256 * 24]
          k_after_codegen)
    = [0, 0x20030000, 0x20034000, 0x20038000, 0]"
  unfolding k_after_codegen_def by code_simp

lemma link_after_codegen_nomem:
  "\<exists>cc' k'. mimic_cc_link cfg_rp2040 cc objs p fd k_after_codegen
              = Some (MIMIC_ERR_NOMEM, cc', k', None)"
  unfolding mimic_cc_link_def Let_def kmalloc_link_after_codegen by simp

text \<open>C1. The pipeline never produces a \<open>.mimi\<close> binary, for this source or any other.
  Pass 4 ignores its input and, when its buffers and its output file are there, always
  writes the same object: a text section of 6 bytes, \<open>PUSH {r4-r7, lr}\<close> (\<open>0xB5F0\<close>),
  \<open>MOV r0, #42\<close> (\<open>0x202A\<close>), \<open>POP {r4-r7, pc}\<close> (\<open>0xBDF0\<close>), no relocation and no symbol.
  The linker loads it, finds no GLOBAL symbol \<open>main\<close> and fails; what it finds when it
  opens the object again is that object or, the directory entry being the old one, a
  cut of it that it cannot load. So, whatever the lexer, the parser, the file opens,
  the old contents of the object file and the kernel heap are, \<open>mimic_cc_compile\<close>
  returns an error and writes no output. On the RP2040 kernel right after boot the
  code generator succeeds and the link that follows already fails with
  \<open>MIMIC_ERR_NOMEM\<close>: the kernel heap (50 KB) cannot hold the linker's 64 KB text
  buffer.\<close>

theorem compile_produces_no_binary:
  "(\<exists>e cc' k'. mimic_cc_compile cfg lex_pass parse_pass fd_obj obj_before reopen_err p fd_out cc k
                  = Some (e, cc', k', None) \<and> e \<noteq> MIMIC_OK)
   \<and> mimic_cc_codegen cfg_rp2040 3 cc k_boot
       = (MIMIC_OK, cc \<lparr> cc_code_bytes := 6 \<rparr>, k_after_codegen, Some stub_object)
   \<and> stub_object = bytes_le32 6 @ bytes_le32 0 @ bytes_le32 0 @ bytes_le32 0
                     @ bytes_le16 0xB5F0 @ bytes_le16 0x202A @ bytes_le16 0xBDF0
   \<and> linker_load_object (lnk_init p) (Inr \<lparr> f_data = stub_object, f_pos = 0 \<rparr>)
       = Some (MIMIC_OK, (lnk_init p) \<lparr> l_text := [0xF0, 0xB5, 0x2A, 0x20, 0xF0, 0xBD] \<rparr>)
   \<and> l_has_entry (lnk_init p) = False \<and> l_symbols (lnk_init p) = []
   \<and> (\<exists>cc' k'. mimic_cc_link cfg_rp2040 cc objs p fd_out k_after_codegen
                  = Some (MIMIC_ERR_NOMEM, cc', k', None))"
proof -
  have "stub_object = bytes_le32 6 @ bytes_le32 0 @ bytes_le32 0 @ bytes_le32 0
                     @ bytes_le16 0xB5F0 @ bytes_le16 0x202A @ bytes_le16 0xBDF0"
    by (simp add: stub_object_def bytes_le32_def bytes_le16_def)
  moreover have "l_has_entry (lnk_init p) = False \<and> l_symbols (lnk_init p) = []"
    by (simp add: lnk_init_def)
  ultimately show ?thesis
    using compile_fails [of cfg lex_pass parse_pass fd_obj obj_before reopen_err p fd_out cc k]
      codegen_boot [of cc] load_stub [of p] link_after_codegen_nomem [of cc objs p fd_out]
    by blast
qed

section \<open>Closing a file that was written (mimic_fat32.c)\<close>

text \<open>\<open>mimic_fclose\<close> writes to the card nothing but the cache buffer, into the block of
  the cached sector: every other block is as before, and with a clean cache the card
  and the volume are unchanged.\<close>

lemma mimic_fclose_other_blocks:
  "b \<noteq> sd_block_of (vol s) (cached_sector (vol s)) \<Longrightarrow>
   sd_blocks (sd (snd (mimic_fclose s fd))) b = sd_blocks (sd s) b"
  by (simp add: mimic_fclose_def fat32_flush_cache_def mimic_sd_write_sector_def
                set_file_def Let_def)

lemma mimic_fclose_clean_cache:
  "\<not> cache_dirty (vol s) \<Longrightarrow>
   sd (snd (mimic_fclose s fd)) = sd s \<and> vol (snd (mimic_fclose s fd)) = vol s"
  by (simp add: mimic_fclose_def fat32_flush_cache_def set_file_def Let_def)

text \<open>Claim C9 (closing a handle opened for writing patches the directory entry with the
  final size and first cluster, so that writing 6 bytes and closing leaves
  \<open>file_size = 6\<close> and \<open>fst_clus_lo\<close> = the allocated cluster): the code does not do it.
  On the volume of \<open>fs_hello\<close>, writing the 6 bytes of "hello" and a newline to the
  empty file returns 6, allocates cluster 3 and leaves the handle with first cluster 3
  and size 6; closing returns \<open>MIMIC_OK\<close>, marks the handle closed and leaves the cache
  clean, and the 6 bytes are on the card in the sector of cluster 3 (35). The directory
  sector on the card (34) is what it was before the write: entry 0 still has
  \<open>file_size = 0\<close>, \<open>fst_clus_lo = 0\<close> and \<open>fst_clus_hi = 0\<close>.\<close>

theorem fclose_leaves_directory_entry_stale:
  "fst hello_written = 6
   \<and> first_cluster (files (snd hello_written) ! 0) = 3
   \<and> file_size (files (snd hello_written) ! 0) = 6
   \<and> fst hello_closed = MIMIC_OK
   \<and> is_open (files (snd hello_closed) ! 0) = False
   \<and> cache_dirty (vol (snd hello_closed)) = False
   \<and> take 6 (sd_blocks (sd (snd hello_closed)) 35) = str_hello
   \<and> sd_blocks (sd (snd hello_closed)) 34 = hello_root_dir
   \<and> dirent_file_size (sd_blocks (sd (snd hello_closed)) 34) 0 = 0
   \<and> dirent_fst_clus_lo (sd_blocks (sd (snd hello_closed)) 34) 0 = 0
   \<and> dirent_fst_clus_hi (sd_blocks (sd (snd hello_closed)) 34) 0 = 0"
  by code_simp

end
